theory Spec2Isabelle
  imports Main
begin

section \<open>Domain validation and certificate gatekeeping of sms-sites\<close>

text \<open>
  A shallow embedding of the domain-ownership validation code of the application:
  \<^item> \<^verbatim>\<open>services/domainValidation.js\<close>: \<^verbatim>\<open>normHost\<close>, \<^verbatim>\<open>resolveCnames\<close>,
    \<^verbatim>\<open>resolveIps\<close>, \<^verbatim>\<open>checkDnsTarget\<close>, \<^verbatim>\<open>checkHttpsHealth\<close>;
  \<^item> the handlers \<^verbatim>\<open>POST /admin/sites/:id/validate-domain\<close> (routes/adminSites.js) and
    \<^verbatim>\<open>POST /portal/sites/:id/validate-domain\<close> (routes/portal.js);
  \<^item> the handler \<^verbatim>\<open>GET /caddy-ask\<close> of server.js.

  JavaScript strings are modelled as \<^typ>\<open>string\<close>, one \<^typ>\<open>char\<close> per code unit in the
  range 0..255 (ISO-8859-1). Host names, tokens and header values live in that range.
  The network (DNS answers, HTTPS responses), the clock and the SQLite table are
  explicit arguments; every database statement and every call of a check is recorded
  in a list of effects, in program order.
\<close>

subsection \<open>String primitives of JavaScript\<close>

text \<open>\<^verbatim>\<open>String.prototype.trim\<close> removes white space and line terminators at both ends; in
  the range 0..255 these are the code units 9 to 13, 32 and 160.\<close>

definition isSpaceJs :: "char \<Rightarrow> bool" where
  "isSpaceJs c = (let n = (of_char c :: nat) in (9 \<le> n \<and> n \<le> 13) \<or> n = 32 \<or> n = 160)"

definition trim :: "string \<Rightarrow> string" where
  "trim s = rev (dropWhile isSpaceJs (rev (dropWhile isSpaceJs s)))"

text \<open>\<^verbatim>\<open>toLowerCase\<close>: A..Z and the upper-case letters of ISO-8859-1 (192..222 but the
  multiplication sign 215) move up by 32; every other code unit is unchanged.\<close>

definition lowerChar :: "char \<Rightarrow> char" where
  "lowerChar c = (let n = (of_char c :: nat) in
     if (65 \<le> n \<and> n \<le> 90) \<or> (192 \<le> n \<and> n \<le> 222 \<and> n \<noteq> 215)
     then char_of (n + 32) else c)"

definition toLowerCase :: "string \<Rightarrow> string" where
  "toLowerCase s = map lowerChar s"

text \<open>\<^verbatim>\<open>s.replace(/\.$/, '')\<close>: one dot at the very end of the input is removed.\<close>

definition stripTrailingDot :: "string \<Rightarrow> string" where
  "stripTrailingDot s = (if s \<noteq> [] \<and> last s = CHR ''.'' then butlast s else s)"

text \<open>\<^verbatim>\<open>s.startsWith(p)\<close>.\<close>

definition startsWith :: "string \<Rightarrow> string \<Rightarrow> bool" where
  "startsWith s p = (take (length p) s = p)"

text \<open>\<^verbatim>\<open>xs.join(', ')\<close>.\<close>

fun joinComma :: "string list \<Rightarrow> string" where
  "joinComma [] = []"
| "joinComma [x] = x"
| "joinComma (x # y # ys) = x @ '', '' @ joinComma (y # ys)"

text \<open>\<^verbatim>\<open>v || ''\<close> for a value that is a string or undefined.\<close>

definition orEmpty :: "string option \<Rightarrow> string" where
  "orEmpty v = (case v of None \<Rightarrow> [] | Some s \<Rightarrow> s)"

text \<open>The decimal rendering of a number in a template literal.\<close>

definition digitChar :: "nat \<Rightarrow> char" where
  "digitChar d = char_of (48 + d)"

function decimal :: "nat \<Rightarrow> string" where
  "decimal n = (if n < 10 then [digitChar n] else decimal (n div 10) @ [digitChar (n mod 10)])"
  by pat_completeness auto
termination
  by (relation "measure id") auto

subsection \<open>The sites table\<close>

text \<open>The columns of \<^verbatim>\<open>sites\<close> that validation and gatekeeping read or write (db.js):
  \<^verbatim>\<open>id\<close>, \<^verbatim>\<open>domain\<close> (TEXT UNIQUE NOT NULL), \<^verbatim>\<open>domain_status\<close> and
  \<^verbatim>\<open>domain_last_checked_at\<close> (both TEXT, NULL allowed). The branding and contact
  columns play no part here.\<close>

record site =
  site_id :: nat
  domain :: string
  domain_status :: "string option"
  domain_last_checked_at :: "string option"

text \<open>The database: its rows, and whether statements fail (the \<^verbatim>\<open>err\<close> argument of the
  sqlite3 callbacks).\<close>

record database =
  rows :: "site list"
  broken :: bool

datatype 'a db_result = DbErr | DbOk 'a

text \<open>\<^verbatim>\<open>db.get('SELECT id FROM sites WHERE domain = ? LIMIT 1', [domain], cb)\<close>; the
  column has the default BINARY collation, so the comparison is exact.\<close>

definition selectByDomain :: "database \<Rightarrow> string \<Rightarrow> site option db_result" where
  "selectByDomain db d =
     (if broken db then DbErr else DbOk (find (\<lambda>s. domain s = d) (rows db)))"

text \<open>\<^verbatim>\<open>db.get('SELECT * FROM sites WHERE id = ?', [id], cb)\<close>.\<close>

definition selectById :: "database \<Rightarrow> nat \<Rightarrow> site option db_result" where
  "selectById db i =
     (if broken db then DbErr else DbOk (find (\<lambda>s. site_id s = i) (rows db)))"

text \<open>\<^verbatim>\<open>UPDATE sites SET domain_last_checked_at = ? WHERE id = ?\<close> and
  \<^verbatim>\<open>UPDATE sites SET domain_status = ? WHERE id = ?\<close>. The handlers ignore the error
  argument of these statements; a failing statement changes nothing.\<close>

definition updateLastChecked :: "database \<Rightarrow> nat \<Rightarrow> string \<Rightarrow> database" where
  "updateLastChecked db i ts =
     (if broken db then db
      else db\<lparr>rows := map (\<lambda>s. if site_id s = i then s\<lparr>domain_last_checked_at := Some ts\<rparr> else s)
                          (rows db)\<rparr>)"

definition updateStatus :: "database \<Rightarrow> nat \<Rightarrow> string \<Rightarrow> database" where
  "updateStatus db i st =
     (if broken db then db
      else db\<lparr>rows := map (\<lambda>s. if site_id s = i then s\<lparr>domain_status := Some st\<rparr> else s)
                          (rows db)\<rparr>)"

subsection \<open>The certificate gatekeeper: GET /caddy-ask\<close>

text \<open>\<^verbatim>\<open>/^\d{1,3}(\.\d{1,3}){3}$/\<close>: four groups of one to three decimal digits, separated
  by dots, and nothing else. The recogniser splits at the dots.\<close>

definition isDigit :: "char \<Rightarrow> bool" where
  "isDigit c = (c \<in> set ''0123456789'')"

fun splitDots :: "string \<Rightarrow> string list" where
  "splitDots [] = [[]]"
| "splitDots (c # cs) =
     (if c = CHR ''.'' then [] # splitDots cs
      else (case splitDots cs of [] \<Rightarrow> [[c]] | p # ps \<Rightarrow> (c # p) # ps))"

definition isDigitGroup :: "string \<Rightarrow> bool" where
  "isDigitGroup p = (1 \<le> length p \<and> length p \<le> 3 \<and> list_all isDigit p)"

definition isIPv4 :: "string \<Rightarrow> bool" where
  "isIPv4 d = (let parts = splitDots d in length parts = 4 \<and> list_all isDigitGroup parts)"

text \<open>\<^verbatim>\<open>/^[a-z0-9.-]+$/\<close>: at least one character, each a lower-case ASCII letter, a
  digit, a dot or a hyphen.\<close>

definition isHostChar :: "char \<Rightarrow> bool" where
  "isHostChar c = (c \<in> set ''abcdefghijklmnopqrstuvwxyz0123456789.-'')"

definition isSaneHost :: "string \<Rightarrow> bool" where
  "isSaneHost d = (d \<noteq> [] \<and> list_all isHostChar d)"

text \<open>The request: the query parameters \<^verbatim>\<open>token\<close> and \<^verbatim>\<open>domain\<close>, each present or
  absent. The configuration: the environment variable \<^verbatim>\<open>CADDY_ASK_TOKEN\<close>, set or
  not. The answer: the HTTP status and body.\<close>

definition caddyAsk ::
  "string option \<Rightarrow> database \<Rightarrow> string option \<Rightarrow> string option \<Rightarrow> nat \<times> string" where
  "caddyAsk envToken db qToken qDomain =
     (let token = trim (orEmpty qToken);
          expected = orEmpty envToken
      in if expected = [] \<or> token \<noteq> expected then (403, ''forbidden'')
         else
           let domain0 = toLowerCase (trim (orEmpty qDomain))
           in if domain0 = [] then (400, ''missing domain'')
              else
                let domain1 = takeWhile (\<lambda>c. c \<noteq> CHR '':'') domain0;
                    domain2 = (if startsWith domain1 ''www.'' then drop 4 domain1 else domain1)
                in if domain2 = ''localhost'' then (403, ''denied'')
                   else if isIPv4 domain2 then (403, ''denied'')
                   else if \<not> isSaneHost domain2 then (403, ''denied'')
                   else (case selectByDomain db domain2 of
                           DbErr \<Rightarrow> (500, ''error'')
                         | DbOk None \<Rightarrow> (403, ''denied'')
                         | DbOk (Some row) \<Rightarrow> (200, ''ok'')))"

text \<open>The reverse proxy issues a certificate exactly on status 200.\<close>

definition shouldIssueCertificate ::
  "string option \<Rightarrow> database \<Rightarrow> string \<Rightarrow> string \<Rightarrow> bool" where
  "shouldIssueCertificate envToken db candidateDomain presentedToken =
     (fst (caddyAsk envToken db (Some presentedToken) (Some candidateDomain)) = 200)"

subsection \<open>services/domainValidation.js: the DNS check\<close>

text \<open>The resolver of Node (\<^verbatim>\<open>dns.promises\<close>): each lookup either rejects with an
  error (code and message) or resolves to a list of records.\<close>

record dns_error =
  err_code :: "string option"
  err_message :: string

record dns_world =
  resolveCname :: "string \<Rightarrow> dns_error + string list"
  resolve4 :: "string \<Rightarrow> dns_error + string list"
  resolve6 :: "string \<Rightarrow> dns_error + string list"

datatype dns_query = QueryCNAME string | QueryA string | QueryAAAA string

text \<open>The result object of a check: \<^verbatim>\<open>{ ok, method, detail }\<close>; \<^verbatim>\<open>method\<close> is absent
  from some results.\<close>

record check_result =
  ok :: bool
  method_tag :: "string option"
  detail :: string

definition normHost :: "string \<Rightarrow> string" where
  "normHost h = stripTrailingDot (toLowerCase (trim h))"

text \<open>\<^verbatim>\<open>CNAME_URL\<close> of config/appConfig.js and \<^verbatim>\<open>EXPECTED_CNAME_TARGET\<close>.\<close>

definition CNAME_URL :: "string option \<Rightarrow> string" where
  "CNAME_URL env = (case env of None \<Rightarrow> ''localhost''
                     | Some v \<Rightarrow> if v = [] then ''localhost'' else v)"

definition EXPECTED_CNAME_TARGET :: "string \<Rightarrow> string" where
  "EXPECTED_CNAME_TARGET cnameUrl = toLowerCase (stripTrailingDot (trim cnameUrl))"

definition resolveCnames :: "dns_world \<Rightarrow> string \<Rightarrow> string list" where
  "resolveCnames w host =
     (case resolveCname w host of Inl e \<Rightarrow> [] | Inr cn \<Rightarrow> map normHost cn)"

text \<open>\<^verbatim>\<open>ips.add(ip)\<close> on a \<^verbatim>\<open>Set\<close>, which keeps insertion order, and \<^verbatim>\<open>[...ips]\<close>.\<close>

definition setAdd :: "string list \<Rightarrow> string \<Rightarrow> string list" where
  "setAdd ips ip = (if ip \<in> set ips then ips else ips @ [ip])"

definition resolveIps :: "dns_world \<Rightarrow> string \<Rightarrow> string list" where
  "resolveIps w host =
     (let ips0 = [];
          ips1 = (case resolve4 w host of Inl e \<Rightarrow> ips0 | Inr as \<Rightarrow> foldl setAdd ips0 as);
          ips2 = (case resolve6 w host of Inl e \<Rightarrow> ips1 | Inr as \<Rightarrow> foldl setAdd ips1 as)
      in ips2)"

definition resolveIpsQueries :: "string \<Rightarrow> dns_query list" where
  "resolveIpsQueries host = [QueryA host, QueryAAAA host]"

text \<open>The arrow U+2192 of the two success details lies outside the range 0..255; it
  is written as its three UTF-8 bytes.\<close>

definition arrow :: string where
  "arrow = [CHR 0xE2, CHR 0x86, CHR 0x92]"

text \<open>\<^verbatim>\<open>checkDnsTarget(domain)\<close>, with the expected target and the resolver as
  arguments; it returns the result and the lookups it made, in order.\<close>

definition checkDnsTarget ::
  "string \<Rightarrow> dns_world \<Rightarrow> string \<Rightarrow> check_result \<times> dns_query list" where
  "checkDnsTarget expected w dname =
     (let host = normHost dname
      in if host = [] then (\<lparr>ok = False, method_tag = None, detail = ''Empty domain''\<rparr>, [])
         else
           let cnames = resolveCnames w host;
               q1 = [QueryCNAME host]
           in if cnames \<noteq> [] then
                (if list_ex (\<lambda>c. c = expected) cnames
                 then (\<lparr>ok = True, method_tag = Some ''cname'',
                        detail = ''CNAME OK '' @ arrow @ '' '' @ joinComma cnames\<rparr>, q1)
                 else (\<lparr>ok = False, method_tag = Some ''cname'',
                        detail = ''CNAME points to ['' @ joinComma cnames @ ''], expected ''
                                 @ expected\<rparr>, q1))
              else
                let hostIps = resolveIps w host;
                    q2 = q1 @ resolveIpsQueries host
                in if hostIps = [] then
                     (\<lparr>ok = False, method_tag = Some ''a/aaaa'',
                       detail = ''No A/AAAA records found for '' @ host\<rparr>, q2)
                   else
                     let expectedIps = resolveIps w expected;
                         q3 = q2 @ resolveIpsQueries expected
                     in if expectedIps = [] then
                          (\<lparr>ok = False, method_tag = Some ''a/aaaa'',
                            detail = ''Expected target '' @ expected
                                     @ '' has no A/AAAA records (cannot compare)''\<rparr>, q3)
                        else if list_ex (\<lambda>ip. ip \<in> set expectedIps) hostIps
                        then (\<lparr>ok = True, method_tag = Some ''a/aaaa'',
                               detail = ''A/AAAA OK '' @ arrow @ '' '' @ joinComma hostIps\<rparr>, q3)
                        else (\<lparr>ok = False, method_tag = Some ''a/aaaa'',
                               detail = ''A/AAAA was ['' @ joinComma hostIps
                                        @ ''], expected one of ['' @ joinComma expectedIps
                                        @ ''] (Cloudflare proxy can cause this)''\<rparr>, q3))"

subsection \<open>services/domainValidation.js: the HTTPS check\<close>

text \<open>What one \<^verbatim>\<open>https.request\<close> ends in: a response (status code, headers with
  lower-case names, the body as its chunks), the \<^verbatim>\<open>error\<close> event (\<^verbatim>\<open>err.code\<close> and
  the text \<^verbatim>\<open>err.message || String(err)\<close>), or the \<^verbatim>\<open>timeout\<close> event.\<close>

datatype http_outcome =
    Response nat "(string \<times> string) list" "string list"
  | RequestError "string option" string
  | RequestTimeout

definition HEALTH_SIGNATURE_HEADER :: string where
  "HEALTH_SIGNATURE_HEADER = ''x-sms-sites''"

text \<open>The \<^verbatim>\<open>data\<close> handler: append the chunk, keep at most 64 characters.\<close>

definition onData :: "string \<Rightarrow> string \<Rightarrow> string" where
  "onData body chunk = (let b = body @ chunk in if length b > 64 then take 64 b else b)"

definition readBody :: "string list \<Rightarrow> string" where
  "readBody chunks = foldl onData [] chunks"

text \<open>The \<^verbatim>\<open>end\<close> handler.\<close>

definition onEnd :: "nat \<Rightarrow> (string \<times> string) list \<Rightarrow> string \<Rightarrow> check_result" where
  "onEnd statusCode headers body =
     (let sigHeader = trim (orEmpty (map_of headers HEALTH_SIGNATURE_HEADER));
          bodyTrim = trim body;
          isOurApp = (sigHeader = ''1'' \<or> bodyTrim = ''OK'')
      in if statusCode = 200 \<and> isOurApp then
           \<lparr>ok = True, method_tag = None, detail = ''HTTPS /health returned 200 (validated)''\<rparr>
         else if statusCode = 200 \<and> \<not> isOurApp then
           \<lparr>ok = False, method_tag = None,
             detail = ''HTTPS /health returned 200 but did not match signature (missing ''
                      @ HEALTH_SIGNATURE_HEADER @ '': 1)''\<rparr>
         else
           \<lparr>ok = False, method_tag = None,
             detail = ''HTTPS /health returned status '' @ decimal statusCode\<rparr>)"

definition attemptOnce :: "http_outcome \<Rightarrow> check_result" where
  "attemptOnce outcome =
     (case outcome of
        Response statusCode headers chunks \<Rightarrow> onEnd statusCode headers (readBody chunks)
      | RequestError code text \<Rightarrow>
          \<lparr>ok = False, method_tag = None,
            detail = ''HTTPS error: '' @ orEmpty code @ '' '' @ text\<rparr>
      | RequestTimeout \<Rightarrow>
          \<lparr>ok = False, method_tag = None, detail = ''HTTPS timeout when calling /health''\<rparr>)"

text \<open>The options \<^verbatim>\<open>{ retries = 2, retryDelayMs = 1500 } = {}\<close>: the object and each of
  its fields may be absent. \<^verbatim>\<open>retries\<close> is a count.\<close>

record https_options =
  opt_retries :: "nat option"
  opt_retryDelayMs :: "nat option"

definition retriesOf :: "https_options option \<Rightarrow> nat" where
  "retriesOf opts = (case opts of None \<Rightarrow> 2
                      | Some p \<Rightarrow> (case opt_retries p of None \<Rightarrow> 2 | Some r \<Rightarrow> r))"

definition retryDelayMsOf :: "https_options option \<Rightarrow> nat" where
  "retryDelayMsOf opts = (case opts of None \<Rightarrow> 1500
                           | Some p \<Rightarrow> (case opt_retryDelayMs p of None \<Rightarrow> 1500 | Some r \<Rightarrow> r))"

text \<open>What the prober does, in order: requests and timed waits.\<close>

datatype probe_event = Request string | Sleep nat

text \<open>The loop \<^verbatim>\<open>for (let i = 0; i <= retries; i++)\<close>; \<^verbatim>\<open>net i\<close> is what request number
  \<^verbatim>\<open>i\<close> ends in, \<^verbatim>\<open>last\<close> (here \<open>lastResult\<close>) starts undefined.\<close>

function retryLoop ::
  "(nat \<Rightarrow> http_outcome) \<Rightarrow> string \<Rightarrow> nat \<Rightarrow> nat \<Rightarrow> nat \<Rightarrow> check_result option
   \<Rightarrow> check_result option \<times> probe_event list" where
  "retryLoop net host retries retryDelayMs i lastResult =
     (if i \<le> retries then
        let r = attemptOnce (net i)
        in if ok r then (Some r, [Request host])
           else (case retryLoop net host retries retryDelayMs (Suc i) (Some r) of
                   (res, evs) \<Rightarrow>
                     (res, Request host # (if i < retries then [Sleep retryDelayMs] else []) @ evs))
      else (lastResult, []))"
  by pat_completeness auto
termination
  by (relation "measure (\<lambda>(net, host, retries, retryDelayMs, i, lastResult). Suc retries - i)") auto

text \<open>\<^verbatim>\<open>checkHttpsHealth(domain, options)\<close>; \<^verbatim>\<open>net host i\<close> is what request number
  \<^verbatim>\<open>i\<close> to \<^verbatim>\<open>host\<close> ends in.\<close>

definition checkHttpsHealth ::
  "(string \<Rightarrow> nat \<Rightarrow> http_outcome) \<Rightarrow> string \<Rightarrow> https_options option
   \<Rightarrow> check_result option \<times> probe_event list" where
  "checkHttpsHealth net dname opts =
     (let host = trim dname
      in if host = [] then (Some \<lparr>ok = False, method_tag = None, detail = ''Empty domain''\<rparr>, [])
         else retryLoop (net host) host (retriesOf opts) (retryDelayMsOf opts) 0 None)"

subsection \<open>The earlier revision of the validation module\<close>

text \<open>The repository also holds the module as it was before the A/AAAA fallback and the
  retries were added (the third file of the bundle beside routes/adminSites.js). It is
  the only module text that exports a function named \<^verbatim>\<open>checkDnsCname\<close>. Its
  \<^verbatim>\<open>EXPECTED_CNAME_TARGET\<close> is \<^verbatim>\<open>CNAME_URL\<close> unchanged.\<close>

datatype 'a outcome = Returned 'a | Threw string

definition checkDnsCname :: "string \<Rightarrow> dns_world \<Rightarrow> string \<Rightarrow> check_result" where
  "checkDnsCname cnameUrl w dname =
     (let host = toLowerCase (trim dname)
      in case resolveCname w host of
           Inr cnames \<Rightarrow>
             if cnames = [] then
               \<lparr>ok = False, method_tag = None, detail = ''No CNAME records found for '' @ host\<rparr>
             else if \<not> list_ex (\<lambda>c. toLowerCase (stripTrailingDot c) = toLowerCase cnameUrl) cnames
             then \<lparr>ok = False, method_tag = None,
                    detail = ''CNAME points to ['' @ joinComma cnames @ ''], expected '' @ cnameUrl\<rparr>
             else \<lparr>ok = True, method_tag = None,
                    detail = ''CNAME OK '' @ arrow @ '' '' @ joinComma cnames\<rparr>
         | Inl err \<Rightarrow>
             \<lparr>ok = False, method_tag = None,
               detail = ''DNS error ('' @ (case err_code err of None \<Rightarrow> ''ERR'' | Some c \<Rightarrow> if c = [] then ''ERR'' else c)
                        @ ''): '' @ err_message err\<rparr>)"

text \<open>Its \<^verbatim>\<open>checkHttpsHealth\<close> makes one request, accepts every status 200 and rejects
  its promise on the \<^verbatim>\<open>error\<close> and \<^verbatim>\<open>timeout\<close> events.\<close>

definition checkHttpsHealth_v1 ::
  "(string \<Rightarrow> nat \<Rightarrow> http_outcome) \<Rightarrow> string \<Rightarrow> check_result outcome" where
  "checkHttpsHealth_v1 net dname =
     (let host = trim dname
      in case net host 0 of
           Response statusCode headers chunks \<Rightarrow>
             if statusCode = 200 then
               Returned \<lparr>ok = True, method_tag = None, detail = ''HTTPS /health returned 200''\<rparr>
             else
               Returned \<lparr>ok = False, method_tag = None,
                          detail = ''HTTPS /health returned status '' @ decimal statusCode\<rparr>
         | RequestError code text \<Rightarrow> Threw (''HTTPS error: '' @ orEmpty code @ '' '' @ text)
         | RequestTimeout \<Rightarrow> Threw ''HTTPS timeout when calling /health'')"

subsection \<open>Modules and their exports\<close>

text \<open>What a module exports under a name: a check function (called with the domain; it
  returns a result object or undefined, or throws) or a string. \<^verbatim>\<open>module.exports\<close> is
  the list of names with their values.\<close>

datatype jsval = CheckFn "string \<Rightarrow> check_result option outcome" | StrVal string

text \<open>\<^verbatim>\<open>module.exports = { checkDnsTarget, checkHttpsHealth, EXPECTED_CNAME_TARGET }\<close> of
  services/domainValidation.js. A handler calls \<^verbatim>\<open>checkHttpsHealth(domain)\<close> with no
  options.\<close>

definition services_domainValidation ::
  "string \<Rightarrow> dns_world \<Rightarrow> (string \<Rightarrow> nat \<Rightarrow> http_outcome) \<Rightarrow> (string \<times> jsval) list" where
  "services_domainValidation cnameUrl w net =
     [(''checkDnsTarget'',
         CheckFn (\<lambda>d. Returned (Some (fst (checkDnsTarget (EXPECTED_CNAME_TARGET cnameUrl) w d))))),
      (''checkHttpsHealth'', CheckFn (\<lambda>d. Returned (fst (checkHttpsHealth net d None)))),
      (''EXPECTED_CNAME_TARGET'', StrVal (EXPECTED_CNAME_TARGET cnameUrl))]"

text \<open>\<^verbatim>\<open>module.exports = { checkDnsCname, checkHttpsHealth, EXPECTED_CNAME_TARGET }\<close> of the
  earlier revision.\<close>

definition domainValidation_v1 ::
  "string \<Rightarrow> dns_world \<Rightarrow> (string \<Rightarrow> nat \<Rightarrow> http_outcome) \<Rightarrow> (string \<times> jsval) list" where
  "domainValidation_v1 cnameUrl w net =
     [(''checkDnsCname'', CheckFn (\<lambda>d. Returned (Some (checkDnsCname cnameUrl w d)))),
      (''checkHttpsHealth'',
         CheckFn (\<lambda>d. case checkHttpsHealth_v1 net d of
                         Returned r \<Rightarrow> Returned (Some r) | Threw e \<Rightarrow> Threw e)),
      (''EXPECTED_CNAME_TARGET'', StrVal cnameUrl)]"

text \<open>The import of both route modules:
  \<^verbatim>\<open>const { checkDnsCname, checkHttpsHealth, EXPECTED_CNAME_TARGET } = require('../services/domainValidation')\<close>.
  A name the module does not export is bound to undefined.\<close>

record validation_imports =
  imp_checkDnsCname :: "jsval option"
  imp_checkHttpsHealth :: "jsval option"
  imp_EXPECTED_CNAME_TARGET :: "jsval option"

definition requireDomainValidation :: "(string \<times> jsval) list \<Rightarrow> validation_imports" where
  "requireDomainValidation exports =
     \<lparr>imp_checkDnsCname = map_of exports ''checkDnsCname'',
      imp_checkHttpsHealth = map_of exports ''checkHttpsHealth'',
      imp_EXPECTED_CNAME_TARGET = map_of exports ''EXPECTED_CNAME_TARGET''\<rparr>"

definition isFunction :: "jsval option \<Rightarrow> bool" where
  "isFunction v = (case v of Some (CheckFn f) \<Rightarrow> True | _ \<Rightarrow> False)"

text \<open>A call \<^verbatim>\<open>await f(domain)\<close>: calling a value that is not a function throws a
  TypeError.\<close>

definition callCheck :: "string \<Rightarrow> jsval option \<Rightarrow> string \<Rightarrow> check_result option outcome" where
  "callCheck name v d =
     (case v of Some (CheckFn f) \<Rightarrow> f d | _ \<Rightarrow> Threw (name @ '' is not a function''))"

text \<open>A value inside a template literal.\<close>

definition showJs :: "jsval option \<Rightarrow> string" where
  "showJs v = (case v of None \<Rightarrow> ''undefined'' | Some (StrVal s) \<Rightarrow> s
               | Some (CheckFn f) \<Rightarrow> ''[function]'')"

subsection \<open>The validation handlers\<close>

text \<open>What a handler does, in order: the two UPDATE statements, the calls of the two
  checks, the flash notice of the session, and the response.\<close>

datatype effect =
    SetLastChecked nat string
  | SetStatus nat string
  | CallDnsCheck string
  | CallHttpsCheck string
  | SetFlash string string
  | Send nat string
  | Redirect string

definition readOkOfUndefined :: string where
  "readOkOfUndefined = ''Cannot read properties of undefined (reading 'ok')''"

text \<open>The \<^verbatim>\<open>try { ... } catch (e) { ... }\<close> block of both handlers: the new status, the
  flash notice (type and message), and the calls made.\<close>

definition validationTry ::
  "validation_imports \<Rightarrow> string \<Rightarrow> (string \<times> string \<times> string) \<times> effect list" where
  "validationTry imp dname =
     (let caught = (\<lambda>message.
            (''error_generic'', ''error'',
             ''Validation failed for '' @ dname @ '': ''
               @ (if message = [] then ''Unknown validation error'' else message)));
          dnsCall = (if isFunction (imp_checkDnsCname imp) then [CallDnsCheck dname] else [])
      in case callCheck ''checkDnsCname'' (imp_checkDnsCname imp) dname of
           Threw e \<Rightarrow> (caught e, dnsCall)
         | Returned None \<Rightarrow> (caught readOkOfUndefined, dnsCall)
         | Returned (Some dnsResult) \<Rightarrow>
             if \<not> ok dnsResult then
               ((''dns_error'', ''error'',
                 ''DNS validation failed for '' @ dname @ '': '' @ detail dnsResult
                   @ '' (expected: '' @ showJs (imp_EXPECTED_CNAME_TARGET imp) @ '')''),
                dnsCall)
             else
               (let httpsCall = (if isFunction (imp_checkHttpsHealth imp)
                                then [CallHttpsCheck dname] else []);
                   httpsResult =
                     (case callCheck ''checkHttpsHealth'' (imp_checkHttpsHealth imp) dname of
                        Returned r \<Rightarrow> r
                      | Threw httpsErr \<Rightarrow>
                          Some \<lparr>ok = False, method_tag = None,
                                detail = (if httpsErr = [] then ''HTTPS /health check failed''
                                          else httpsErr)\<rparr>)
                in (case httpsResult of
                      None \<Rightarrow> (caught readOkOfUndefined, dnsCall @ httpsCall)
                    | Some h \<Rightarrow>
                        (let newStatus = (if ok h then ''active'' else ''dns_ok_ssl_error'')
                         in ((newStatus,
                              (if ok h then ''success'' else ''warning''),
                              (if ok h then ''Domain '' @ dname @ '' is active.''
                               else ''Domain '' @ dname
                                    @ '' DNS is OK but HTTPS check had issues: '' @ detail h)),
                             dnsCall @ httpsCall)))))"

text \<open>The body shared by both handlers, from \<^verbatim>\<open>db.get('SELECT * FROM sites WHERE id = ?')\<close>
  on; \<open>now\<close> is \<^verbatim>\<open>new Date().toISOString()\<close>, \<open>redirectTo\<close> the page the handler
  redirects to. An id that does not parse finds no row, like an id that is not in the
  table.\<close>

definition validateDomain ::
  "validation_imports \<Rightarrow> string \<Rightarrow> database \<Rightarrow> nat \<Rightarrow> string \<Rightarrow> database \<times> effect list" where
  "validateDomain imp redirectTo db i now =
     (case selectById db i of
        DbErr \<Rightarrow> (db, [Send 500 ''Error loading site.''])
      | DbOk None \<Rightarrow> (db, [Send 404 ''Site not found.''])
      | DbOk (Some s) \<Rightarrow>
          let dname = toLowerCase (trim (domain s))
          in if dname = [] then (db, [Send 400 ''Site domain is empty.''])
             else
               let db1 = updateLastChecked db i now
               in case validationTry imp dname of
                    ((newStatus, flashType, flashMessage), calls) \<Rightarrow>
                      (updateStatus db1 i newStatus,
                       SetLastChecked i now # calls
                         @ [SetStatus i newStatus, SetFlash flashType flashMessage,
                            Redirect redirectTo]))"

text \<open>\<^verbatim>\<open>POST /admin/sites/:id/validate-domain\<close>.\<close>

definition adminValidateDomain ::
  "validation_imports \<Rightarrow> database \<Rightarrow> nat \<Rightarrow> string \<Rightarrow> database \<times> effect list" where
  "adminValidateDomain imp db i now = validateDomain imp ''/admin/sites'' db i now"

text \<open>\<^verbatim>\<open>POST /portal/sites/:id/validate-domain\<close>; \<open>userSiteId\<close> is \<^verbatim>\<open>user.site_id\<close> of the
  session.\<close>

definition portalValidateDomain ::
  "validation_imports \<Rightarrow> nat option \<Rightarrow> database \<Rightarrow> nat \<Rightarrow> string \<Rightarrow> database \<times> effect list" where
  "portalValidateDomain imp userSiteId db siteId now =
     (case userSiteId of
        None \<Rightarrow> (db, [Send 403 ''You can only validate your own site.''])
      | Some u \<Rightarrow>
          if u = 0 \<or> u \<noteq> siteId then (db, [Send 403 ''You can only validate your own site.''])
          else validateDomain imp ''/portal/site'' db siteId now)"

subsection \<open>Reading a list of effects\<close>

fun statusesWritten :: "effect list \<Rightarrow> string list" where
  "statusesWritten [] = []"
| "statusesWritten (SetStatus i st # es) = st # statusesWritten es"
| "statusesWritten (e # es) = statusesWritten es"

fun isCheckCall :: "effect \<Rightarrow> bool" where
  "isCheckCall (CallDnsCheck d) = True"
| "isCheckCall (CallHttpsCheck d) = True"
| "isCheckCall e = False"

fun isHttpsCall :: "effect \<Rightarrow> bool" where
  "isHttpsCall (CallHttpsCheck d) = True"
| "isHttpsCall e = False"

fun isDbWrite :: "effect \<Rightarrow> bool" where
  "isDbWrite (SetLastChecked i ts) = True"
| "isDbWrite (SetStatus i st) = True"
| "isDbWrite e = False"

subsection \<open>Notions of the specification\<close>

text \<open>The normalisation of a candidate domain by the gatekeeper, as one function: trim
  and lower-case, cut at the first colon, drop one leading \<^verbatim>\<open>www.\<close> label.\<close>

definition normalizeCandidate :: "string \<Rightarrow> string" where
  "normalizeCandidate raw =
     (let d = takeWhile (\<lambda>c. c \<noteq> CHR '':'') (toLowerCase (trim raw))
      in if startsWith d ''www.'' then drop 4 d else d)"

text \<open>The presented token matches the pre-shared secret: a secret is configured, and
  the token, trimmed, is that secret.\<close>

definition tokenMatches :: "string option \<Rightarrow> string \<Rightarrow> bool" where
  "tokenMatches envToken presented =
     (orEmpty envToken \<noteq> [] \<and> trim presented = orEmpty envToken)"

text \<open>A tenant record with exactly this domain exists in the registry.\<close>

definition registered :: "database \<Rightarrow> string \<Rightarrow> bool" where
  "registered db d = (\<exists>s \<in> set (rows db). domain s = d)"

text \<open>A literal IPv4 address in the sense of the gatekeeper: four groups of one to
  three digits with dots between them.\<close>

definition dottedQuad :: "string \<Rightarrow> bool" where
  "dottedQuad d = (\<exists>a b c e. d = a @ ''.'' @ b @ ''.'' @ c @ ''.'' @ e
                     \<and> isDigitGroup a \<and> isDigitGroup b \<and> isDigitGroup c \<and> isDigitGroup e)"

text \<open>A site record with the two validation columns blanked: two registries that differ
  only in validation status or check time agree after blanking.\<close>

definition eraseValidation :: "site \<Rightarrow> site" where
  "eraseValidation s = s\<lparr>domain_status := None, domain_last_checked_at := None\<rparr>"

text \<open>\<^verbatim>\<open>parts.join('.')\<close>, the inverse of splitting at the dots.\<close>

fun joinDots :: "string list \<Rightarrow> string" where
  "joinDots [] = []"
| "joinDots [x] = x"
| "joinDots (x # y # ys) = x @ ''.'' @ joinDots (y # ys)"

text \<open>The records a lookup contributes: none when it fails.\<close>

fun records :: "dns_error + string list \<Rightarrow> string set" where
  "records (Inl e) = {}"
| "records (Inr xs) = set xs"

text \<open>\<open>k + 1\<close> requests to a host with a wait of \<open>delay\<close> milliseconds between
  consecutive ones.\<close>

fun schedule :: "string \<Rightarrow> nat \<Rightarrow> nat \<Rightarrow> probe_event list" where
  "schedule host delay 0 = [Request host]"
| "schedule host delay (Suc k) = Request host # Sleep delay # schedule host delay k"

fun isRequest :: "probe_event \<Rightarrow> bool" where
  "isRequest (Request h) = True"
| "isRequest (Sleep d) = False"

subsection \<open>Fixtures\<close>

text \<open>A registry as db.js seeds it (the default site \<^verbatim>\<open>localhost\<close>, status pending, never
  checked) with one tenant added through \<^verbatim>\<open>POST /admin/sites/new\<close>.\<close>

definition exampleDb :: database where
  "exampleDb =
     \<lparr>rows = [\<lparr>site_id = 1, domain = ''localhost'', domain_status = Some ''pending'',
                domain_last_checked_at = None\<rparr>,
              \<lparr>site_id = 2, domain = ''example.com'', domain_status = Some ''pending'',
                domain_last_checked_at = None\<rparr>],
      broken = False\<rparr>"

text \<open>The same registry after a validation of the tenant has passed.\<close>

definition exampleDbValidated :: database where
  "exampleDbValidated =
     \<lparr>rows = [\<lparr>site_id = 1, domain = ''localhost'', domain_status = Some ''pending'',
                domain_last_checked_at = None\<rparr>,
              \<lparr>site_id = 2, domain = ''example.com'', domain_status = Some ''active'',
                domain_last_checked_at = Some ''2026-01-01T00:00:00.000Z''\<rparr>],
      broken = False\<rparr>"

text \<open>A DNS world for the scenarios of the specification: \<^verbatim>\<open>example.com\<close> is a CNAME
  of the platform ingress (as the resolver returns it, with capitals and the trailing
  dot), \<^verbatim>\<open>stray.example\<close> is a CNAME of another host, \<^verbatim>\<open>apex.example\<close> has only an
  A record, which the ingress shares.\<close>

definition noData :: dns_error where
  "noData = \<lparr>err_code = Some ''ENODATA'', err_message = ''queryCname ENODATA''\<rparr>"

definition exampleDns :: dns_world where
  "exampleDns =
     \<lparr>resolveCname = (\<lambda>h. if h = ''example.com'' then Inr [''Proxy.Platform.Test.'']
                            else if h = ''stray.example'' then Inr [''wrong.host'']
                            else Inl noData),
      resolve4 = (\<lambda>h. if h = ''apex.example'' then Inr [''203.0.113.7'']
                        else if h = ''proxy.platform.test''
                        then Inr [''203.0.113.7'', ''203.0.113.8'']
                        else Inl noData),
      resolve6 = (\<lambda>h. if h = ''proxy.platform.test'' then Inr [''2001:db8::7'']
                        else Inl noData)\<rparr>"

text \<open>HTTPS worlds: the application itself answering \<^verbatim>\<open>/health\<close> (routes/public.js),
  another server answering 200, a server answering 503, and one whose first two
  connections are reset while the certificate is being issued.\<close>

definition healthyNet :: "string \<Rightarrow> nat \<Rightarrow> http_outcome" where
  "healthyNet host n = Response 200 [(''x-sms-sites'', ''1'')] [''OK'']"

definition strangerNet :: "string \<Rightarrow> nat \<Rightarrow> http_outcome" where
  "strangerNet host n = Response 200 [] [''Hello'']"

definition unavailableNet :: "string \<Rightarrow> nat \<Rightarrow> http_outcome" where
  "unavailableNet host n = Response 503 [] [''Service Unavailable'']"

definition flakyNet :: "string \<Rightarrow> nat \<Rightarrow> http_outcome" where
  "flakyNet host n =
     (if n < 2 then RequestError (Some ''ECONNRESET'') ''socket hang up''
      else Response 200 [(''x-sms-sites'', ''1'')] [''OK''])"

definition exampleNow :: string where
  "exampleNow = ''2026-01-01T00:00:00.000Z''"

text \<open>The import of the route modules, resolved against the earlier revision of the
  module and against services/domainValidation.js.\<close>

definition v1Imports :: "(string \<Rightarrow> nat \<Rightarrow> http_outcome) \<Rightarrow> validation_imports" where
  "v1Imports net =
     requireDomainValidation (domainValidation_v1 ''proxy.platform.test'' exampleDns net)"

definition currentImports :: "(string \<Rightarrow> nat \<Rightarrow> http_outcome) \<Rightarrow> validation_imports" where
  "currentImports net =
     requireDomainValidation (services_domainValidation ''proxy.platform.test'' exampleDns net)"

section \<open>Properties of the gatekeeper\<close>

subsection \<open>Auxiliary facts\<close>

lemma orEmpty_Some [simp]: "orEmpty (Some s) = s"
  by (simp add: orEmpty_def)

lemma orEmpty_None [simp]: "orEmpty None = []"
  by (simp add: orEmpty_def)

lemma splitDots_nonempty: "splitDots s \<noteq> []"
  by (induction s) (auto split: list.splits)

lemma joinDots_splitDots: "joinDots (splitDots s) = s"
proof (induction s)
  case Nil
  show ?case by simp
next
  case (Cons c cs)
  obtain p ps where sp: "splitDots cs = p # ps"
    using splitDots_nonempty[of cs] by (cases "splitDots cs") auto
  show ?case
  proof (cases "c = CHR ''.''")
    case True
    then show ?thesis using Cons.IH sp by simp
  next
    case False
    then show ?thesis using Cons.IH sp by (cases ps) auto
  qed
qed

lemma splitDots_nodot: "CHR ''.'' \<notin> set a \<Longrightarrow> splitDots a = [a]"
  by (induction a) auto

lemma splitDots_app: "CHR ''.'' \<notin> set a \<Longrightarrow> splitDots (a @ CHR ''.'' # r) = a # splitDots r"
  by (induction a) auto

lemma dot_not_digit: "\<not> isDigit (CHR ''.'')"
  by (simp add: isDigit_def)

lemma digitGroup_nodot: "isDigitGroup p \<Longrightarrow> CHR ''.'' \<notin> set p"
  using dot_not_digit by (auto simp: isDigitGroup_def list_all_iff)

text \<open>The recogniser for \<^verbatim>\<open>/^\d{1,3}(\.\d{1,3}){3}$/\<close> accepts exactly the dotted quads.\<close>

lemma isIPv4_dottedQuad: "isIPv4 d = dottedQuad d"
proof
  assume "isIPv4 d"
  then obtain a b c e where sp: "splitDots d = [a, b, c, e]"
    and g: "isDigitGroup a" "isDigitGroup b" "isDigitGroup c" "isDigitGroup e"
    by (auto simp: isIPv4_def Let_def length_Suc_conv numeral_eq_Suc)
  have "d = joinDots [a, b, c, e]" using joinDots_splitDots[of d] sp by simp
  then show "dottedQuad d" using g unfolding dottedQuad_def by auto
next
  assume "dottedQuad d"
  then obtain a b c e where d: "d = a @ ''.'' @ b @ ''.'' @ c @ ''.'' @ e"
    and g: "isDigitGroup a" "isDigitGroup b" "isDigitGroup c" "isDigitGroup e"
    unfolding dottedQuad_def by blast
  have "splitDots d = [a, b, c, e]"
    using d g by (simp add: splitDots_app splitDots_nodot digitGroup_nodot)
  then show "isIPv4 d" using g by (simp add: isIPv4_def)
qed

lemma registered_find: "registered db d = (find (\<lambda>s. domain s = d) (rows db) \<noteq> None)"
  by (auto simp: registered_def find_None_iff)

text \<open>The handler after the token check and the missing-domain check.\<close>

lemma caddyAsk_checked:
  assumes "tokenMatches envToken tok" "toLowerCase (trim cand) \<noteq> []"
  shows "caddyAsk envToken db (Some tok) (Some cand) =
     (if normalizeCandidate cand = ''localhost'' then (403, ''denied'')
      else if isIPv4 (normalizeCandidate cand) then (403, ''denied'')
      else if \<not> isSaneHost (normalizeCandidate cand) then (403, ''denied'')
      else (case selectByDomain db (normalizeCandidate cand) of
              DbErr \<Rightarrow> (500, ''error'')
            | DbOk None \<Rightarrow> (403, ''denied'')
            | DbOk (Some row) \<Rightarrow> (200, ''ok'')))"
proof -
  have t: "orEmpty envToken \<noteq> []" "trim tok = orEmpty envToken"
    using assms(1) by (simp_all add: tokenMatches_def)
  show ?thesis
    unfolding caddyAsk_def normalizeCandidate_def Let_def
    by (simp only: orEmpty_Some t assms(2) simp_thms if_False if_True)
qed

lemma caddyAsk_unmatched:
  assumes "\<not> tokenMatches envToken tok"
  shows "caddyAsk envToken db (Some tok) qDomain = (403, ''forbidden'')"
proof -
  have "orEmpty envToken = [] \<or> trim tok \<noteq> orEmpty envToken"
    using assms by (auto simp: tokenMatches_def)
  then show ?thesis
    unfolding caddyAsk_def Let_def by (simp only: orEmpty_Some if_True)
qed

lemma caddyAsk_missing:
  assumes "tokenMatches envToken tok" "toLowerCase (trim cand) = []"
  shows "caddyAsk envToken db (Some tok) (Some cand) = (400, ''missing domain'')"
proof -
  have t: "orEmpty envToken \<noteq> []" "trim tok = orEmpty envToken"
    using assms(1) by (simp_all add: tokenMatches_def)
  show ?thesis
    unfolding caddyAsk_def Let_def
    by (simp only: orEmpty_Some t assms(2) simp_thms if_False if_True)
qed

lemma selectByDomain_200:
  "(fst (case selectByDomain db d of
              DbErr \<Rightarrow> (500, ''error'')
            | DbOk None \<Rightarrow> (403, ''denied'')
            | DbOk (Some row) \<Rightarrow> (200::nat, ''ok'')) = 200) = (\<not> broken db \<and> registered db d)"
  by (cases "find (\<lambda>s. domain s = d) (rows db)")
     (simp_all add: selectByDomain_def registered_find)

lemma find_erase:
  "map eraseValidation xs = map eraseValidation ys \<Longrightarrow>
   (find (\<lambda>s. domain s = d) xs = None) = (find (\<lambda>s. domain s = d) ys = None)"
proof (induction xs arbitrary: ys)
  case Nil
  then show ?case by simp
next
  case (Cons x xs)
  then obtain y ys' where ys: "ys = y # ys'" "eraseValidation x = eraseValidation y"
     "map eraseValidation xs = map eraseValidation ys'" by auto
  have "domain (eraseValidation x) = domain (eraseValidation y)" using ys(2) by simp
  then have "domain x = domain y" by (simp add: eraseValidation_def)
  then show ?case using Cons.IH[OF ys(3)] ys(1) by simp
qed

lemma selectByDomain_erase:
  assumes "map eraseValidation (rows db) = map eraseValidation (rows db')"
      and "broken db = broken db'"
  shows "(case selectByDomain db d of
              DbErr \<Rightarrow> (500, ''error'')
            | DbOk None \<Rightarrow> (403, ''denied'')
            | DbOk (Some row) \<Rightarrow> (200::nat, ''ok''))
       = (case selectByDomain db' d of
              DbErr \<Rightarrow> (500, ''error'')
            | DbOk None \<Rightarrow> (403, ''denied'')
            | DbOk (Some row) \<Rightarrow> (200::nat, ''ok''))"
proof (cases "broken db")
  case True
  then show ?thesis using assms(2) by (simp add: selectByDomain_def)
next
  case False
  then have nb: "\<not> broken db'" using assms(2) by simp
  show ?thesis
  proof (cases "find (\<lambda>s. domain s = d) (rows db)")
    case None
    then have "find (\<lambda>s. domain s = d) (rows db') = None"
      using find_erase[OF assms(1), of d] by simp
    then show ?thesis using None False nb by (simp add: selectByDomain_def)
  next
    case (Some a)
    then have "find (\<lambda>s. domain s = d) (rows db') \<noteq> None"
      using find_erase[OF assms(1), of d] by simp
    then obtain b where "find (\<lambda>s. domain s = d) (rows db') = Some b" by blast
    then show ?thesis using Some False nb by (simp add: selectByDomain_def)
  qed
qed

subsection \<open>The certificate decision\<close>

text \<open>
  Claim C2. \<^verbatim>\<open>shouldIssueCertificate(candidateDomain, presentedToken)\<close> (status 200 of
  \<^verbatim>\<open>GET /caddy-ask\<close>) holds if and only if the presented token matches the pre-shared
  secret and the normalised candidate (trimmed and lower-cased, cut at the port, one
  leading \<^verbatim>\<open>www.\<close> dropped) is not \<^verbatim>\<open>localhost\<close>, is not a dotted quad, is a
  non-empty string over a-z, 0-9, dot and hyphen, and is the domain of a row of the
  registry, which answers the lookup. Every other input is rejected.
\<close>

theorem C2_gatekeeper_accepts_iff:
  "shouldIssueCertificate envToken db candidateDomain presentedToken =
     (tokenMatches envToken presentedToken \<and>
      (let d = normalizeCandidate candidateDomain
       in d \<noteq> ''localhost'' \<and> \<not> dottedQuad d \<and>
          d \<noteq> [] \<and> (\<forall>c \<in> set d. c \<in> set ''abcdefghijklmnopqrstuvwxyz0123456789.-'') \<and>
          \<not> broken db \<and> registered db d))"
proof -
  let ?d = "normalizeCandidate candidateDomain"
  have empty: "toLowerCase (trim candidateDomain) = [] \<Longrightarrow> ?d = []"
    by (simp add: normalizeCandidate_def startsWith_def)
  have sane: "isSaneHost ?d
      = (?d \<noteq> [] \<and> (\<forall>c \<in> set ?d. c \<in> set ''abcdefghijklmnopqrstuvwxyz0123456789.-''))"
    by (simp add: isSaneHost_def isHostChar_def list_all_iff)
  show ?thesis
  proof (cases "tokenMatches envToken presentedToken")
    case False
    then show ?thesis
      by (simp add: shouldIssueCertificate_def caddyAsk_unmatched)
  next
    case True
    note tok = this
    show ?thesis
    proof (cases "toLowerCase (trim candidateDomain) = []")
      case True
      then have "fst (caddyAsk envToken db (Some presentedToken) (Some candidateDomain)) = 400"
        using caddyAsk_missing[OF tok True] by simp
      then show ?thesis using empty[OF True]
        by (simp add: shouldIssueCertificate_def Let_def)
    next
      case False
      have "(fst (caddyAsk envToken db (Some presentedToken) (Some candidateDomain)) = 200)
            = (?d \<noteq> ''localhost'' \<and> \<not> isIPv4 ?d \<and> isSaneHost ?d
               \<and> \<not> broken db \<and> registered db ?d)"
        unfolding caddyAsk_checked[OF tok False]
        using selectByDomain_200[of db ?d] by simp
      then show ?thesis using tok sane
        by (simp add: shouldIssueCertificate_def isIPv4_dottedQuad Let_def)
    qed
  qed
qed

text \<open>The fourth end-to-end scenario of the specification: \<^verbatim>\<open>WWW.Example.COM:443\<close> with
  the valid token normalises to \<^verbatim>\<open>example.com\<close>, which is registered.\<close>

theorem C2_gatekeeper_accepts_iff_witness:
  "shouldIssueCertificate (Some ''s3cret'') exampleDb ''WWW.Example.COM:443'' ''s3cret''
   \<and> normalizeCandidate ''WWW.Example.COM:443'' = ''example.com''"
proof -
  have n: "normalizeCandidate ''WWW.Example.COM:443'' = ''example.com''"
    by code_simp
  have t: "tokenMatches (Some ''s3cret'') ''s3cret''"
    by code_simp
  have q: "\<not> dottedQuad ''example.com''"
    unfolding isIPv4_dottedQuad[symmetric] by code_simp
  have c: "\<forall>c \<in> set ''example.com''. c \<in> set ''abcdefghijklmnopqrstuvwxyz0123456789.-''"
    by simp
  have r: "\<not> broken exampleDb \<and> registered exampleDb ''example.com''"
    by (simp add: exampleDb_def registered_def)
  show ?thesis
    using C2_gatekeeper_accepts_iff[of "Some ''s3cret''" exampleDb "''WWW.Example.COM:443''"
        "''s3cret''"] n t q c r
    by (simp add: Let_def)
qed

text \<open>
  Claim C9. The decision of the gatekeeper does not depend on the validation columns:
  two registries whose rows agree once \<^verbatim>\<open>domain_status\<close> and
  \<^verbatim>\<open>domain_last_checked_at\<close> are blanked get the same answer for every token and every
  candidate domain. A certificate can therefore be approved for a tenant whose
  validation has never run.
\<close>

theorem C9_gatekeeper_ignores_validation_state:
  assumes "map eraseValidation (rows db) = map eraseValidation (rows db')"
      and "broken db = broken db'"
  shows "caddyAsk envToken db qToken qDomain = caddyAsk envToken db' qToken qDomain
       \<and> shouldIssueCertificate envToken db candidateDomain presentedToken
         = shouldIssueCertificate envToken db' candidateDomain presentedToken"
proof -
  have "caddyAsk envToken db t d = caddyAsk envToken db' t d" for t d
    unfolding caddyAsk_def Let_def
    by (simp only: selectByDomain_erase[OF assms])
  then show ?thesis by (simp add: shouldIssueCertificate_def)
qed

text \<open>The tenant is approved while pending and never checked, and equally once active.\<close>

theorem C9_gatekeeper_ignores_validation_state_witness:
  "map eraseValidation (rows exampleDb) = map eraseValidation (rows exampleDbValidated)
   \<and> broken exampleDb = broken exampleDbValidated
   \<and> caddyAsk (Some ''s3cret'') exampleDb (Some ''s3cret'') (Some ''example.com'')
     = caddyAsk (Some ''s3cret'') exampleDbValidated (Some ''s3cret'') (Some ''example.com'')
   \<and> shouldIssueCertificate (Some ''s3cret'') exampleDb ''example.com'' ''s3cret''
   \<and> shouldIssueCertificate (Some ''s3cret'') exampleDbValidated ''example.com'' ''s3cret''"
proof -
  have e: "map eraseValidation (rows exampleDb) = map eraseValidation (rows exampleDbValidated)"
    by (simp add: exampleDb_def exampleDbValidated_def eraseValidation_def)
  have b: "broken exampleDb = broken exampleDbValidated"
    by (simp add: exampleDb_def exampleDbValidated_def)
  have a: "shouldIssueCertificate (Some ''s3cret'') exampleDb ''example.com'' ''s3cret''"
    by code_simp
  show ?thesis
    using C9_gatekeeper_ignores_validation_state[OF e b, of "Some ''s3cret''" "Some ''s3cret''"
        "Some ''example.com''" "''example.com''" "''s3cret''"] e b a
    by simp
qed

text \<open>
  Claim C10. When no pre-shared token is configured (\<^verbatim>\<open>CADDY_ASK_TOKEN\<close> unset or empty)
  the gatekeeper answers 403 to every request, whatever token and domain it carries and
  whatever the registry holds: it fails closed.
\<close>

theorem C10_gatekeeper_fails_closed:
  "fst (caddyAsk None db qToken qDomain) = 403
   \<and> fst (caddyAsk (Some []) db qToken qDomain) = 403
   \<and> \<not> shouldIssueCertificate None db candidateDomain presentedToken
   \<and> \<not> shouldIssueCertificate (Some []) db candidateDomain presentedToken"
  by (simp add: shouldIssueCertificate_def caddyAsk_def)

text \<open>With no secret configured, the empty token does not open the gate for a registered
  domain.\<close>

theorem C10_gatekeeper_fails_closed_witness:
  "fst (caddyAsk None exampleDb (Some []) (Some ''example.com'')) = 403
   \<and> fst (caddyAsk (Some []) exampleDb None (Some ''example.com'')) = 403
   \<and> \<not> shouldIssueCertificate None exampleDb ''example.com'' []
   \<and> \<not> shouldIssueCertificate (Some []) exampleDb ''example.com'' []"
  using C10_gatekeeper_fails_closed[of exampleDb "Some []" "Some ''example.com''" "''example.com''" "[]"]
        C10_gatekeeper_fails_closed[of exampleDb None "Some ''example.com''" "''example.com''" "[]"]
  by simp

section \<open>Properties of the DNS check\<close>

subsection \<open>Auxiliary facts\<close>

lemma set_foldl_setAdd: "set (foldl setAdd ips as) = set ips \<union> set as"
  by (induction as arbitrary: ips) (auto simp: setAdd_def)

text \<open>\<^verbatim>\<open>resolveIps\<close> collects the A and the AAAA records; a lookup that fails
  contributes nothing and does not stop the other.\<close>

lemma set_resolveIps: "set (resolveIps w h) = records (resolve4 w h) \<union> records (resolve6 w h)"
  by (cases "resolve4 w h"; cases "resolve6 w h")
     (simp_all add: resolveIps_def Let_def set_foldl_setAdd)

lemma resolveCnames_Inr: "resolveCname w h = Inr cn \<Longrightarrow> resolveCnames w h = map normHost cn"
  by (simp add: resolveCnames_def)

text \<open>No CNAME records: the lookup fails or returns none.\<close>

lemma resolveCnames_empty:
  "(resolveCnames w h = []) = (case resolveCname w h of Inl e \<Rightarrow> True | Inr cn \<Rightarrow> cn = [])"
  by (simp add: resolveCnames_def split: sum.splits)

lemma list_ex_eq: "list_ex (\<lambda>c. c = e) cs = (e \<in> set cs)"
  by (auto simp: list_ex_iff)

lemma list_ex_mem: "list_ex (\<lambda>ip. ip \<in> set ys) xs = (set xs \<inter> set ys \<noteq> {})"
  by (auto simp: list_ex_iff)

text \<open>A blank domain is answered without any lookup.\<close>

lemma checkDnsTarget_blank:
  "normHost dname = [] \<Longrightarrow>
     checkDnsTarget expected w dname
       = (\<lparr>ok = False, method_tag = None, detail = ''Empty domain''\<rparr>, [])"
  by (simp add: checkDnsTarget_def)

subsection \<open>The CNAME branch\<close>

text \<open>
  Claim C4. For every domain whose CNAME lookup returns a non-empty list of targets,
  \<^verbatim>\<open>checkDnsTarget\<close> (the specification's \<^verbatim>\<open>resolveOwnership\<close>) answers with method
  \<^verbatim>\<open>cname\<close>, and with \<^verbatim>\<open>ok = true\<close> exactly when some target, normalised (trim,
  lower case, one trailing dot removed), equals the expected target host name. The
  only lookup made is the CNAME lookup: no A or AAAA record is resolved in this
  branch, whether the targets match or not.
\<close>

theorem C4_cname_branch:
  assumes "normHost dname \<noteq> []"
      and "resolveCname w (normHost dname) = Inr targets"
      and "targets \<noteq> []"
  shows "ok (fst (checkDnsTarget (EXPECTED_CNAME_TARGET cnameUrl) w dname))
           = (\<exists>t \<in> set targets. normHost t = EXPECTED_CNAME_TARGET cnameUrl)
       \<and> method_tag (fst (checkDnsTarget (EXPECTED_CNAME_TARGET cnameUrl) w dname))
           = Some ''cname''
       \<and> snd (checkDnsTarget (EXPECTED_CNAME_TARGET cnameUrl) w dname)
           = [QueryCNAME (normHost dname)]"
proof -
  have cn: "resolveCnames w (normHost dname) = map normHost targets"
    using assms(2) by (rule resolveCnames_Inr)
  have ne: "map normHost targets \<noteq> []" using assms(3) by simp
  have ex: "(EXPECTED_CNAME_TARGET cnameUrl \<in> set (map normHost targets))
           = (\<exists>t \<in> set targets. normHost t = EXPECTED_CNAME_TARGET cnameUrl)"
    by force
  show ?thesis
    unfolding checkDnsTarget_def Let_def cn list_ex_eq ex
    using assms(1) ne by simp
qed

text \<open>\<^verbatim>\<open>Example.COM.\<close> is a CNAME of \<^verbatim>\<open>Proxy.Platform.Test.\<close>, which is the expected
  target whatever the case and the trailing dot; one CNAME lookup is made.\<close>

theorem C4_cname_branch_witness:
  "normHost ''Example.COM.'' = ''example.com''
   \<and> resolveCname exampleDns ''example.com'' = Inr [''Proxy.Platform.Test.'']
   \<and> ok (fst (checkDnsTarget (EXPECTED_CNAME_TARGET ''proxy.platform.test'') exampleDns
              ''Example.COM.''))
   \<and> method_tag (fst (checkDnsTarget (EXPECTED_CNAME_TARGET ''proxy.platform.test'') exampleDns
              ''Example.COM.'')) = Some ''cname''
   \<and> snd (checkDnsTarget (EXPECTED_CNAME_TARGET ''proxy.platform.test'') exampleDns
              ''Example.COM.'') = [QueryCNAME ''example.com'']"
proof -
  have n: "normHost ''Example.COM.'' = ''example.com''"
    by code_simp
  have h1: "normHost ''Example.COM.'' \<noteq> []"
    using n by simp
  have c: "resolveCname exampleDns ''example.com'' = Inr [''Proxy.Platform.Test.'']"
    by (simp add: exampleDns_def)
  have h2: "resolveCname exampleDns (normHost ''Example.COM.'') = Inr [''Proxy.Platform.Test.'']"
    using n c by simp
  have h3: "[''Proxy.Platform.Test.''] \<noteq> []"
    by simp
  have m: "normHost ''Proxy.Platform.Test.'' = EXPECTED_CNAME_TARGET ''proxy.platform.test''"
    by code_simp
  show ?thesis
    using C4_cname_branch[OF h1 h2 h3, of "''proxy.platform.test''"] n c m
    by simp
qed

subsection \<open>The A/AAAA fallback\<close>

text \<open>
  Claim C5, as the code has it. For every domain with no CNAME records,
  \<^verbatim>\<open>checkDnsTarget\<close> resolves the A and AAAA records of the candidate and, when the
  candidate has any, those of the expected target, each lookup on its own; it answers
  with method \<^verbatim>\<open>a/aaaa\<close> (not \<^verbatim>\<open>a_aaaa\<close>), and with \<^verbatim>\<open>ok = true\<close> exactly when the two
  address sets share an address. A candidate without addresses, an expected target
  without addresses and two disjoint non-empty sets are reported with three details
  that differ pairwise.
\<close>

theorem C5_address_fallback:
  assumes "normHost dname \<noteq> []"
      and "resolveCnames w (normHost dname) = []"
  shows "(let host = normHost dname;
              hostIps = resolveIps w host;
              expectedIps = resolveIps w expected;
              r = fst (checkDnsTarget expected w dname);
              q = snd (checkDnsTarget expected w dname)
          in ok r = (set hostIps \<inter> set expectedIps \<noteq> {})
           \<and> set hostIps = records (resolve4 w host) \<union> records (resolve6 w host)
           \<and> set expectedIps = records (resolve4 w expected) \<union> records (resolve6 w expected)
           \<and> method_tag r = Some ''a/aaaa''
           \<and> (if hostIps = [] then
                  detail r = ''No A/AAAA records found for '' @ host
                  \<and> q = [QueryCNAME host, QueryA host, QueryAAAA host]
               else
                  q = [QueryCNAME host, QueryA host, QueryAAAA host,
                       QueryA expected, QueryAAAA expected]
                  \<and> (if expectedIps = [] then
                        detail r = ''Expected target '' @ expected
                                   @ '' has no A/AAAA records (cannot compare)''
                      else if ok r then
                        detail r = ''A/AAAA OK '' @ arrow @ '' '' @ joinComma hostIps
                      else
                        detail r = ''A/AAAA was ['' @ joinComma hostIps
                                   @ ''], expected one of ['' @ joinComma expectedIps
                                   @ ''] (Cloudflare proxy can cause this)''))
           \<and> ''No A/AAAA records found for '' @ host
                 \<noteq> ''Expected target '' @ expected @ '' has no A/AAAA records (cannot compare)''
           \<and> ''No A/AAAA records found for '' @ host
                 \<noteq> ''A/AAAA was ['' @ joinComma hostIps
                      @ ''], expected one of ['' @ joinComma expectedIps
                      @ ''] (Cloudflare proxy can cause this)''
           \<and> ''Expected target '' @ expected @ '' has no A/AAAA records (cannot compare)''
                 \<noteq> ''A/AAAA was ['' @ joinComma hostIps
                      @ ''], expected one of ['' @ joinComma expectedIps
                      @ ''] (Cloudflare proxy can cause this)'')"
proof -
  let ?host = "normHost dname"
  let ?h = "resolveIps w ?host"
  let ?e = "resolveIps w expected"
  have empty_h: "?h = [] \<Longrightarrow> set ?h \<inter> set ?e = {}" by simp
  have empty_e: "?e = [] \<Longrightarrow> set ?h \<inter> set ?e = {}" by simp
  show ?thesis
    unfolding Let_def
  proof (intro conjI)
    show "ok (fst (checkDnsTarget expected w dname)) = (set ?h \<inter> set ?e \<noteq> {})"
      unfolding checkDnsTarget_def Let_def assms(2) list_ex_mem
      using assms(1) empty_h empty_e by simp
    show "set ?h = records (resolve4 w ?host) \<union> records (resolve6 w ?host)"
      by (rule set_resolveIps)
    show "set ?e = records (resolve4 w expected) \<union> records (resolve6 w expected)"
      by (rule set_resolveIps)
    show "method_tag (fst (checkDnsTarget expected w dname)) = Some ''a/aaaa''"
      unfolding checkDnsTarget_def Let_def assms(2)
      using assms(1) by simp
    show "if ?h = [] then
            detail (fst (checkDnsTarget expected w dname))
              = ''No A/AAAA records found for '' @ ?host
            \<and> snd (checkDnsTarget expected w dname)
              = [QueryCNAME ?host, QueryA ?host, QueryAAAA ?host]
          else
            snd (checkDnsTarget expected w dname)
              = [QueryCNAME ?host, QueryA ?host, QueryAAAA ?host,
                 QueryA expected, QueryAAAA expected]
            \<and> (if ?e = [] then
                  detail (fst (checkDnsTarget expected w dname))
                    = ''Expected target '' @ expected @ '' has no A/AAAA records (cannot compare)''
                else if ok (fst (checkDnsTarget expected w dname)) then
                  detail (fst (checkDnsTarget expected w dname))
                    = ''A/AAAA OK '' @ arrow @ '' '' @ joinComma ?h
                else
                  detail (fst (checkDnsTarget expected w dname))
                    = ''A/AAAA was ['' @ joinComma ?h
                        @ ''], expected one of ['' @ joinComma ?e
                        @ ''] (Cloudflare proxy can cause this)'')"
      unfolding checkDnsTarget_def Let_def assms(2)
      using assms(1) by (simp add: resolveIpsQueries_def)
  qed simp_all
qed

text \<open>\<^verbatim>\<open>apex.example\<close> has no CNAME and shares the address 203.0.113.7 with the
  ingress.\<close>

theorem C5_address_fallback_witness:
  "normHost ''apex.example'' = ''apex.example''
   \<and> resolveCnames exampleDns ''apex.example'' = []
   \<and> resolveIps exampleDns ''apex.example'' = [''203.0.113.7'']
   \<and> resolveIps exampleDns ''proxy.platform.test''
       = [''203.0.113.7'', ''203.0.113.8'', ''2001:db8::7'']
   \<and> ok (fst (checkDnsTarget ''proxy.platform.test'' exampleDns ''apex.example''))
   \<and> method_tag (fst (checkDnsTarget ''proxy.platform.test'' exampleDns ''apex.example''))
       = Some ''a/aaaa''"
proof -
  have n: "normHost ''apex.example'' = ''apex.example''"
    by code_simp
  have h1: "normHost ''apex.example'' \<noteq> []"
    using n by simp
  have c: "resolveCnames exampleDns ''apex.example'' = []"
    by (simp add: resolveCnames_def exampleDns_def)
  have h2: "resolveCnames exampleDns (normHost ''apex.example'') = []"
    using n c by simp
  have a: "resolveIps exampleDns ''apex.example'' = [''203.0.113.7'']"
    by (simp add: resolveIps_def exampleDns_def setAdd_def)
  have b: "resolveIps exampleDns ''proxy.platform.test''
             = [''203.0.113.7'', ''203.0.113.8'', ''2001:db8::7'']"
    by (simp add: resolveIps_def exampleDns_def setAdd_def)
  show ?thesis
    using C5_address_fallback[OF h1 h2, of "''proxy.platform.test''"] n c a b
    by (simp add: Let_def)
qed

text \<open>The claim as stated names the method \<^verbatim>\<open>a_aaaa\<close>; the result object of the code
  carries \<^verbatim>\<open>a/aaaa\<close>.\<close>

theorem C5_method_name_counterexample:
  "ok (fst (checkDnsTarget ''proxy.platform.test'' exampleDns ''apex.example''))
   \<and> method_tag (fst (checkDnsTarget ''proxy.platform.test'' exampleDns ''apex.example''))
       = Some ''a/aaaa''
   \<and> method_tag (fst (checkDnsTarget ''proxy.platform.test'' exampleDns ''apex.example''))
       \<noteq> Some ''a_aaaa''"
  by code_simp

section \<open>Properties of the HTTPS check\<close>

subsection \<open>Auxiliary facts\<close>

declare retryLoop.simps [simp del]

lemma onData_take: "length body \<le> 64 \<Longrightarrow> onData body chunk = take 64 (body @ chunk)"
  by (simp add: onData_def Let_def)

lemma foldl_onData:
  "length body \<le> 64 \<Longrightarrow> foldl onData body chunks = take 64 (body @ concat chunks)"
proof (induction chunks arbitrary: body)
  case Nil
  then show ?case by simp
next
  case (Cons c cs)
  have "foldl onData (onData body c) cs = take 64 (onData body c @ concat cs)"
    by (rule Cons.IH) (simp add: onData_take[OF Cons.prems])
  also have "\<dots> = take 64 (take 64 (body @ c) @ concat cs)"
    by (simp add: onData_take[OF Cons.prems])
  also have "\<dots> = take 64 (body @ c @ concat cs)"
    by (simp add: take_add min_def)
  finally show ?case by simp
qed

text \<open>However the body is cut into chunks, what the \<^verbatim>\<open>data\<close> handler keeps is its first
  64 characters.\<close>

lemma readBody_take: "readBody chunks = take 64 (concat chunks)"
  using foldl_onData[of "[]" chunks] by (simp add: readBody_def)

text \<open>A request that ends in the \<^verbatim>\<open>error\<close> or the \<^verbatim>\<open>timeout\<close> event is a failed attempt.\<close>

lemma attemptOnce_no_response:
  "\<not> ok (attemptOnce (RequestError code text)) \<and> \<not> ok (attemptOnce RequestTimeout)"
  by (simp add: attemptOnce_def)

lemma retryLoop_success:
  assumes "i \<le> k" "k \<le> retries" "ok (attemptOnce (net k))"
      and "\<And>j. i \<le> j \<Longrightarrow> j < k \<Longrightarrow> \<not> ok (attemptOnce (net j))"
  shows "retryLoop net host retries delay i lastResult
           = (Some (attemptOnce (net k)), schedule host delay (k - i))"
  using assms
proof (induction "k - i" arbitrary: i lastResult)
  case 0
  then have "i = k" by simp
  then show ?case using "0.prems" by (subst retryLoop.simps) (simp add: Let_def)
next
  case (Suc n)
  then have lt: "i < k" by simp
  have nok: "\<not> ok (attemptOnce (net i))" using Suc.prems(4)[of i] lt by simp
  have rec: "retryLoop net host retries delay (Suc i) (Some (attemptOnce (net i)))
           = (Some (attemptOnce (net k)), schedule host delay (k - Suc i))"
    using Suc.hyps(1)[of "Suc i"] Suc.hyps(2) Suc.prems lt by simp
  have sk: "k - i = Suc (k - Suc i)" using lt by simp
  show ?case
    using nok lt Suc.prems(2) rec
    by (subst retryLoop.simps) (simp add: Let_def sk)
qed

lemma retryLoop_exhausted:
  assumes "i \<le> retries"
      and "\<And>j. i \<le> j \<Longrightarrow> j \<le> retries \<Longrightarrow> \<not> ok (attemptOnce (net j))"
  shows "retryLoop net host retries delay i lastResult
           = (Some (attemptOnce (net retries)), schedule host delay (retries - i))"
  using assms
proof (induction "retries - i" arbitrary: i lastResult)
  case 0
  then have eq: "i = retries" by simp
  have nok: "\<not> ok (attemptOnce (net retries))" using "0.prems"(2)[of retries] eq by simp
  have out: "retryLoop net host retries delay (Suc retries) (Some (attemptOnce (net retries)))
               = (Some (attemptOnce (net retries)), [])"
    by (subst retryLoop.simps) simp
  show ?case using nok out eq by (subst retryLoop.simps) (simp add: Let_def)
next
  case (Suc n)
  then have lt: "i < retries" by simp
  have nok: "\<not> ok (attemptOnce (net i))" using Suc.prems(2)[of i] lt by simp
  have rec: "retryLoop net host retries delay (Suc i) (Some (attemptOnce (net i)))
           = (Some (attemptOnce (net retries)), schedule host delay (retries - Suc i))"
    using Suc.hyps(1)[of "Suc i"] Suc.hyps(2) Suc.prems lt by simp
  have sk: "retries - i = Suc (retries - Suc i)" using lt by simp
  show ?case
    using nok lt rec
    by (subst retryLoop.simps) (simp add: Let_def sk)
qed

lemma schedule_requests: "length (filter isRequest (schedule host delay k)) = Suc k"
  by (induction k) simp_all

lemma schedule_sleeps:
  "filter (\<lambda>e. \<not> isRequest e) (schedule host delay k) = replicate k (Sleep delay)"
  by (induction k) simp_all

text \<open>A blank domain is answered without any request.\<close>

lemma checkHttpsHealth_blank:
  "trim dname = [] \<Longrightarrow>
     checkHttpsHealth net dname opts
       = (Some \<lparr>ok = False, method_tag = None, detail = ''Empty domain''\<rparr>, [])"
  by (simp add: checkHttpsHealth_def)

subsection \<open>One attempt\<close>

text \<open>
  Claim C3. An attempt of \<^verbatim>\<open>checkHttpsHealth\<close> (the specification's \<^verbatim>\<open>probeHealth\<close>)
  reports \<^verbatim>\<open>ok = true\<close> if and only if the request ends in a response with status 200
  that proves the platform's identity: the header \<^verbatim>\<open>x-sms-sites\<close>, trimmed, is \<^verbatim>\<open>1\<close>, or
  the body as read (its first 64 characters), trimmed, is \<^verbatim>\<open>OK\<close>. A response with
  status 200 and neither proof gives \<^verbatim>\<open>ok = false\<close> with a detail of its own, which
  differs from the detail of every response with another status.
\<close>

theorem C3_attempt_ok_iff:
  "ok (attemptOnce outcome)
     = (\<exists>headers chunks. outcome = Response 200 headers chunks
          \<and> (trim (orEmpty (map_of headers ''x-sms-sites'')) = ''1''
               \<or> trim (take 64 (concat chunks)) = ''OK''))
   \<and> (trim (orEmpty (map_of headers ''x-sms-sites'')) \<noteq> ''1''
        \<and> trim (take 64 (concat chunks)) \<noteq> ''OK''
      \<longrightarrow> \<not> ok (attemptOnce (Response 200 headers chunks))
          \<and> detail (attemptOnce (Response 200 headers chunks))
              = ''HTTPS /health returned 200 but did not match signature (missing x-sms-sites: 1)''
          \<and> (statusCode \<noteq> 200
              \<longrightarrow> \<not> ok (attemptOnce (Response statusCode headers' chunks'))
                \<and> detail (attemptOnce (Response statusCode headers' chunks'))
                    = ''HTTPS /health returned status '' @ decimal statusCode
                \<and> detail (attemptOnce (Response statusCode headers' chunks'))
                    \<noteq> detail (attemptOnce (Response 200 headers chunks))))"
proof (intro conjI impI)
  show "ok (attemptOnce outcome)
     = (\<exists>headers chunks. outcome = Response 200 headers chunks
          \<and> (trim (orEmpty (map_of headers ''x-sms-sites'')) = ''1''
               \<or> trim (take 64 (concat chunks)) = ''OK''))"
    by (cases outcome)
       (auto simp: attemptOnce_def onEnd_def Let_def readBody_take HEALTH_SIGNATURE_HEADER_def)
next
  assume a: "trim (orEmpty (map_of headers ''x-sms-sites'')) \<noteq> ''1''
        \<and> trim (take 64 (concat chunks)) \<noteq> ''OK''"
  show "\<not> ok (attemptOnce (Response 200 headers chunks))"
    using a
    by (simp add: attemptOnce_def onEnd_def Let_def readBody_take HEALTH_SIGNATURE_HEADER_def)
  show d: "detail (attemptOnce (Response 200 headers chunks))
              = ''HTTPS /health returned 200 but did not match signature (missing x-sms-sites: 1)''"
    using a
    by (simp add: attemptOnce_def onEnd_def Let_def readBody_take HEALTH_SIGNATURE_HEADER_def)
  assume s: "statusCode \<noteq> 200"
  show "\<not> ok (attemptOnce (Response statusCode headers' chunks'))"
    using s by (simp add: attemptOnce_def onEnd_def Let_def)
  show e: "detail (attemptOnce (Response statusCode headers' chunks'))
                    = ''HTTPS /health returned status '' @ decimal statusCode"
    using s by (simp add: attemptOnce_def onEnd_def Let_def)
  show "detail (attemptOnce (Response statusCode headers' chunks'))
                    \<noteq> detail (attemptOnce (Response 200 headers chunks))"
    unfolding d e by simp
qed

text \<open>The application's own answer passes; a 200 with body \<^verbatim>\<open>Hello\<close> and no header
  fails, with a detail other than that of a 503.\<close>

theorem C3_attempt_ok_iff_witness:
  "ok (attemptOnce (Response 200 [(''x-sms-sites'', ''1'')] [''OK'']))
   \<and> trim (orEmpty (map_of [] ''x-sms-sites'')) \<noteq> ''1''
   \<and> trim (take 64 (concat [''Hello''])) \<noteq> ''OK''
   \<and> \<not> ok (attemptOnce (Response 200 [] [''Hello'']))
   \<and> \<not> ok (attemptOnce (Response 503 [] [''Service Unavailable'']))
   \<and> detail (attemptOnce (Response 503 [] [''Service Unavailable'']))
       \<noteq> detail (attemptOnce (Response 200 [] [''Hello'']))"
proof -
  have p: "trim (orEmpty (map_of [(''x-sms-sites'', ''1'')] ''x-sms-sites'')) = ''1''"
    by code_simp
  have h: "trim (orEmpty (map_of [] ''x-sms-sites'')) \<noteq> ''1''"
    by code_simp
  have b: "trim (take 64 (concat [''Hello''])) \<noteq> ''OK''"
    by code_simp
  have s: "(503::nat) \<noteq> 200"
    by simp
  have yes: "ok (attemptOnce (Response 200 [(''x-sms-sites'', ''1'')] [''OK'']))"
    using C3_attempt_ok_iff[of "Response 200 [(''x-sms-sites'', ''1'')] [''OK'']"] p
    by blast
  show ?thesis
    using C3_attempt_ok_iff[of "Response 200 [] [''Hello'']" "[]" "[''Hello'']" 503 "[]"
        "[''Service Unavailable'']"] h b s yes
    by blast
qed

subsection \<open>The retry loop\<close>

text \<open>The course of a call on a domain that is not blank, in terms of the number of
  retries and the delay the call works with.\<close>

lemma retry_schedule_of_options:
  assumes "trim dname \<noteq> []"
  shows "(let host = trim dname;
              retries = retriesOf opts;
              retryDelayMs = retryDelayMsOf opts;
              result = (\<lambda>j. attemptOnce (net host j));
              run = checkHttpsHealth net dname opts
          in (\<forall>k. k \<le> retries \<and> ok (result k) \<and> (\<forall>j < k. \<not> ok (result j))
                  \<longrightarrow> run = (Some (result k), schedule host retryDelayMs k))
           \<and> ((\<forall>j \<le> retries. \<not> ok (result j))
                  \<longrightarrow> run = (Some (result retries), schedule host retryDelayMs retries))
           \<and> length (filter isRequest (snd run)) \<le> Suc retries
           \<and> (retries = 0 \<longrightarrow> snd run = [Request host] \<and> fst run = Some (result 0)))
       \<and> retriesOf None = 2 \<and> retryDelayMsOf None = 1500"
proof -
  let ?host = "trim dname"
  let ?n = "retriesOf opts"
  let ?d = "retryDelayMsOf opts"
  let ?res = "\<lambda>j. attemptOnce (net ?host j)"
  have run: "checkHttpsHealth net dname opts = retryLoop (net ?host) ?host ?n ?d 0 None"
    using assms by (simp add: checkHttpsHealth_def Let_def)
  have succ: "checkHttpsHealth net dname opts = (Some (?res k), schedule ?host ?d k)"
    if "k \<le> ?n" "ok (?res k)" "\<forall>j < k. \<not> ok (?res j)" for k
    using retryLoop_success[of 0 k ?n "net ?host" ?host ?d None] that run by simp
  have fail: "checkHttpsHealth net dname opts = (Some (?res ?n), schedule ?host ?d ?n)"
    if "\<forall>j \<le> ?n. \<not> ok (?res j)"
    using retryLoop_exhausted[of 0 ?n "net ?host" ?host ?d None] that run by simp
  have count: "length (filter isRequest (snd (checkHttpsHealth net dname opts))) \<le> Suc ?n"
  proof (cases "\<exists>j \<le> ?n. ok (?res j)")
    case True
    define k where "k = (LEAST j. j \<le> ?n \<and> ok (?res j))"
    have k: "k \<le> ?n \<and> ok (?res k)"
      unfolding k_def using True by (metis (mono_tags, lifting) LeastI_ex)
    have "\<forall>j < k. \<not> ok (?res j)"
    proof (intro allI impI)
      fix j assume "j < k"
      then have "\<not> (j \<le> ?n \<and> ok (?res j))"
        unfolding k_def by (rule not_less_Least)
      moreover have "j \<le> ?n" using \<open>j < k\<close> k by simp
      ultimately show "\<not> ok (?res j)" by simp
    qed
    then have "checkHttpsHealth net dname opts = (Some (?res k), schedule ?host ?d k)"
      using succ k by simp
    then show ?thesis using k by (simp add: schedule_requests)
  next
    case False
    then have "checkHttpsHealth net dname opts = (Some (?res ?n), schedule ?host ?d ?n)"
      using fail by simp
    then show ?thesis by (simp add: schedule_requests)
  qed
  have zero: "snd (checkHttpsHealth net dname opts) = [Request ?host]
              \<and> fst (checkHttpsHealth net dname opts) = Some (?res 0)" if z: "?n = 0"
  proof (cases "ok (?res 0)")
    case True
    then show ?thesis using succ[of 0] z by simp
  next
    case False
    then show ?thesis using fail z by simp
  qed
  show ?thesis
    unfolding Let_def
    using succ fail count zero by (simp add: retriesOf_def retryDelayMsOf_def)
qed

text \<open>
  Claim C6, as the code has it. For every call of \<^verbatim>\<open>checkHttpsHealth\<close> (the
  specification's \<^verbatim>\<open>probeHealth\<close>) on a domain that is not blank, with \<^verbatim>\<open>retries\<close> and
  \<^verbatim>\<open>retryDelayMs\<close> as the caller's options give them and 2 and 1500 where the caller
  gives none: the attempts are made one after the other, with a wait of
  \<^verbatim>\<open>retryDelayMs\<close> after each failed attempt but the last possible one; the first
  successful attempt ends the call and is its result; when the first attempt and all
  \<^verbatim>\<open>retries\<close> further ones fail, the result is that of the last attempt. There are
  never more than \<^verbatim>\<open>retries + 1\<close> requests, and a caller who passes \<^verbatim>\<open>retries = 0\<close>
  gets exactly one request, whose result is the result of the call.
\<close>

theorem C6_retry_schedule:
  assumes "trim dname \<noteq> []"
  shows "(let host = trim dname;
              retries = (case opts of None \<Rightarrow> 2
                         | Some p \<Rightarrow> (case opt_retries p of None \<Rightarrow> 2 | Some r \<Rightarrow> r));
              retryDelayMs = (case opts of None \<Rightarrow> 1500
                              | Some p \<Rightarrow> (case opt_retryDelayMs p of None \<Rightarrow> 1500
                                           | Some d \<Rightarrow> d));
              result = (\<lambda>j. attemptOnce (net host j));
              run = checkHttpsHealth net dname opts
          in (\<forall>k. k \<le> retries \<and> ok (result k) \<and> (\<forall>j < k. \<not> ok (result j))
                  \<longrightarrow> run = (Some (result k), schedule host retryDelayMs k))
           \<and> ((\<forall>j \<le> retries. \<not> ok (result j))
                  \<longrightarrow> run = (Some (result retries), schedule host retryDelayMs retries))
           \<and> length (filter isRequest (snd run)) \<le> Suc retries
           \<and> (retries = 0 \<longrightarrow> snd run = [Request host] \<and> fst run = Some (result 0)))
       \<and> checkHttpsHealth net dname (Some \<lparr>opt_retries = Some 0, opt_retryDelayMs = anyDelay\<rparr>)
           = (Some (attemptOnce (net (trim dname) 0)), [Request (trim dname)])"
proof (intro conjI)
  show "(let host = trim dname;
              retries = (case opts of None \<Rightarrow> 2
                         | Some p \<Rightarrow> (case opt_retries p of None \<Rightarrow> 2 | Some r \<Rightarrow> r));
              retryDelayMs = (case opts of None \<Rightarrow> 1500
                              | Some p \<Rightarrow> (case opt_retryDelayMs p of None \<Rightarrow> 1500
                                           | Some d \<Rightarrow> d));
              result = (\<lambda>j. attemptOnce (net host j));
              run = checkHttpsHealth net dname opts
          in (\<forall>k. k \<le> retries \<and> ok (result k) \<and> (\<forall>j < k. \<not> ok (result j))
                  \<longrightarrow> run = (Some (result k), schedule host retryDelayMs k))
           \<and> ((\<forall>j \<le> retries. \<not> ok (result j))
                  \<longrightarrow> run = (Some (result retries), schedule host retryDelayMs retries))
           \<and> length (filter isRequest (snd run)) \<le> Suc retries
           \<and> (retries = 0 \<longrightarrow> snd run = [Request host] \<and> fst run = Some (result 0)))"
    using retry_schedule_of_options[OF assms, of opts net]
    unfolding retriesOf_def retryDelayMsOf_def by blast
next
  let ?o = "Some \<lparr>opt_retries = Some 0, opt_retryDelayMs = anyDelay\<rparr>"
  have z: "retriesOf ?o = 0"
    by (simp add: retriesOf_def)
  have "snd (checkHttpsHealth net dname ?o) = [Request (trim dname)]
        \<and> fst (checkHttpsHealth net dname ?o) = Some (attemptOnce (net (trim dname) 0))"
    using retry_schedule_of_options[OF assms, of ?o net] z
    unfolding Let_def by blast
  then show "checkHttpsHealth net dname ?o
           = (Some (attemptOnce (net (trim dname) 0)), [Request (trim dname)])"
    by (simp add: prod_eq_iff)
qed

text \<open>With the defaults, two connection resets followed by the application's answer:
  three requests, two waits of 1500 ms, and the third attempt is the result. With
  \<^verbatim>\<open>retries = 0\<close> the first reset is the result, after one request.\<close>

theorem C6_retry_schedule_witness:
  "trim ''example.com'' = ''example.com''
   \<and> \<not> ok (attemptOnce (flakyNet ''example.com'' 0))
   \<and> \<not> ok (attemptOnce (flakyNet ''example.com'' 1))
   \<and> ok (attemptOnce (flakyNet ''example.com'' 2))
   \<and> checkHttpsHealth flakyNet ''example.com'' None
       = (Some (attemptOnce (flakyNet ''example.com'' 2)),
          [Request ''example.com'', Sleep 1500, Request ''example.com'', Sleep 1500,
           Request ''example.com''])
   \<and> checkHttpsHealth flakyNet ''example.com''
         (Some \<lparr>opt_retries = Some 0, opt_retryDelayMs = None\<rparr>)
       = (Some (attemptOnce (flakyNet ''example.com'' 0)), [Request ''example.com''])"
proof -
  have t: "trim ''example.com'' = ''example.com''"
    by code_simp
  have h: "trim ''example.com'' \<noteq> []"
    using t by simp
  have f: "\<not> ok (attemptOnce (flakyNet ''example.com'' j))" if "j < 2" for j
    using that by (simp add: flakyNet_def attemptOnce_def)
  have f0: "\<not> ok (attemptOnce (flakyNet ''example.com'' 0))"
    using f[of 0] by simp
  have f1: "\<not> ok (attemptOnce (flakyNet ''example.com'' 1))"
    using f[of 1] by simp
  have g: "ok (attemptOnce (flakyNet ''example.com'' 2))"
    by code_simp
  have s: "schedule ''example.com'' 1500 2
             = [Request ''example.com'', Sleep 1500, Request ''example.com'', Sleep 1500,
                Request ''example.com'']"
    by (simp add: numeral_2_eq_2)
  note inst = C6_retry_schedule[OF h, of None flakyNet None]
  have "(2::nat) \<le> 2 \<and> ok (attemptOnce (flakyNet (trim ''example.com'') 2))
          \<and> (\<forall>j < 2. \<not> ok (attemptOnce (flakyNet (trim ''example.com'') j)))
        \<longrightarrow> checkHttpsHealth flakyNet ''example.com'' None
             = (Some (attemptOnce (flakyNet (trim ''example.com'') 2)),
                schedule (trim ''example.com'') 1500 2)"
    using inst unfolding Let_def by simp
  moreover have "checkHttpsHealth flakyNet ''example.com''
         (Some \<lparr>opt_retries = Some 0, opt_retryDelayMs = None\<rparr>)
       = (Some (attemptOnce (flakyNet (trim ''example.com'') 0)), [Request (trim ''example.com'')])"
    using inst by blast
  ultimately show ?thesis
    using t f f0 f1 g s by simp
qed

text \<open>The claim as stated speaks of every invocation. A call on a blank domain returns
  \<^verbatim>\<open>Empty domain\<close> before the loop: with \<^verbatim>\<open>retries = 0\<close> it makes no request at all,
  and its result is not the result of an attempt, which would have succeeded here.\<close>

theorem C6_blank_domain_counterexample:
  "checkHttpsHealth healthyNet ''  '' (Some \<lparr>opt_retries = Some 0, opt_retryDelayMs = Some 1500\<rparr>)
     = (Some \<lparr>ok = False, method_tag = None, detail = ''Empty domain''\<rparr>, [])
   \<and> ok (attemptOnce (healthyNet (trim ''  '') 0))"
  by code_simp

section \<open>Properties of the validation handlers\<close>

subsection \<open>Auxiliary facts\<close>

lemma statusesWritten_calls:
  "list_all isCheckCall calls \<Longrightarrow> statusesWritten (calls @ es) = statusesWritten es"
proof (induction calls)
  case Nil
  show ?case by simp
next
  case (Cons c cs)
  then show ?case by (cases c) simp_all
qed

text \<open>The handler once the site is loaded and its domain is not blank.\<close>

lemma validateDomain_run:
  assumes "selectById db i = DbOk (Some s)"
      and "toLowerCase (trim (domain s)) \<noteq> []"
  shows "validateDomain imp redirectTo db i now =
     (case validationTry imp (toLowerCase (trim (domain s))) of
        ((newStatus, flashType, flashMessage), calls) \<Rightarrow>
          (updateStatus (updateLastChecked db i now) i newStatus,
           SetLastChecked i now # calls
             @ [SetStatus i newStatus, SetFlash flashType flashMessage, Redirect redirectTo]))"
  using assms by (simp add: validateDomain_def Let_def)

text \<open>The handler when the site cannot be loaded or its domain is blank: one response,
  no statement, no call.\<close>

lemma validateDomain_refused:
  "selectById db i = DbErr \<Longrightarrow>
     validateDomain imp redirectTo db i now = (db, [Send 500 ''Error loading site.''])"
  "selectById db i = DbOk None \<Longrightarrow>
     validateDomain imp redirectTo db i now = (db, [Send 404 ''Site not found.''])"
  "selectById db i = DbOk (Some s) \<Longrightarrow> toLowerCase (trim (domain s)) = [] \<Longrightarrow>
     validateDomain imp redirectTo db i now = (db, [Send 400 ''Site domain is empty.''])"
  by (simp_all add: validateDomain_def Let_def)

text \<open>The portal handler is the shared body once the session's site is the site of the
  request.\<close>

lemma portalValidateDomain_own:
  "i \<noteq> 0 \<Longrightarrow>
     portalValidateDomain imp (Some i) db i now = validateDomain imp ''/portal/site'' db i now"
  by (simp add: portalValidateDomain_def)

lemma validationTry_calls: "list_all isCheckCall (snd (validationTry imp d))"
  by (simp add: validationTry_def Let_def split: outcome.splits option.splits)

lemma callCheck_fn: "callCheck name (Some (CheckFn f)) d = f d"
  by (simp add: callCheck_def)

lemma callCheck_undefined: "callCheck name None d = Threw (name @ '' is not a function'')"
  by (simp add: callCheck_def)

lemma validationTry_status:
  assumes "imp_checkDnsCname imp = Some (CheckFn dnsCheck)"
      and "dnsCheck d = Returned (Some dnsResult)"
  shows "fst (fst (validationTry imp d)) =
           (if \<not> ok dnsResult then ''dns_error''
            else case callCheck ''checkHttpsHealth'' (imp_checkHttpsHealth imp) d of
                   Returned (Some h) \<Rightarrow> if ok h then ''active'' else ''dns_ok_ssl_error''
                 | Returned None \<Rightarrow> ''error_generic''
                 | Threw e \<Rightarrow> ''dns_ok_ssl_error'')"
    and "snd (validationTry imp d) =
           CallDnsCheck d # (if ok dnsResult \<and> isFunction (imp_checkHttpsHealth imp)
                             then [CallHttpsCheck d] else [])"
  using assms
  by (simp_all add: validationTry_def Let_def callCheck_fn isFunction_def
        split: outcome.splits option.splits)

text \<open>A check that throws, or an import that is not a function, ends in the catch-all
  branch.\<close>

lemma validationTry_dns_throws:
  assumes "callCheck ''checkDnsCname'' (imp_checkDnsCname imp) d = Threw e"
  shows "fst (fst (validationTry imp d)) = ''error_generic''"
  using assms by (simp add: validationTry_def Let_def)

lemma validationTry_unbound:
  assumes "imp_checkDnsCname imp = None"
  shows "validationTry imp d =
           ((''error_generic'', ''error'',
             ''Validation failed for '' @ d @ '': checkDnsCname is not a function''), [])"
  using assms
  by (simp add: validationTry_def Let_def callCheck_undefined isFunction_def)

text \<open>services/domainValidation.js exports no \<^verbatim>\<open>checkDnsCname\<close>: the name the handlers
  import from it is undefined. The earlier revision exports it.\<close>

lemma checkDnsCname_not_exported:
  "imp_checkDnsCname (requireDomainValidation (services_domainValidation cnameUrl w net)) = None"
  by (simp add: requireDomainValidation_def services_domainValidation_def)

lemma checkDnsCname_exported_v1:
  "imp_checkDnsCname (requireDomainValidation (domainValidation_v1 cnameUrl w net))
     = Some (CheckFn (\<lambda>d. Returned (Some (checkDnsCname cnameUrl w d))))"
  by (simp add: requireDomainValidation_def domainValidation_v1_def)

lemma validationTry_dns_called:
  "isFunction (imp_checkDnsCname imp) \<Longrightarrow> CallDnsCheck d \<in> set (snd (validationTry imp d))"
  by (simp add: validationTry_def Let_def split: outcome.splits option.splits)

lemma find_update:
  assumes "\<And>s. site_id (f s) = site_id s"
  shows "find (\<lambda>s. site_id s = i) (map (\<lambda>s. if site_id s = i then f s else s) xs)
           = map_option f (find (\<lambda>s. site_id s = i) xs)"
  using assms by (induction xs) auto

lemma selectById_not_broken: "selectById db i = DbOk r \<Longrightarrow> \<not> broken db"
  by (auto simp: selectById_def split: if_splits)

lemma selectById_found:
  "selectById db i = DbOk (Some s) \<Longrightarrow> find (\<lambda>s. site_id s = i) (rows db) = Some s"
  by (auto simp: selectById_def split: if_splits)

lemma selectById_after_timestamp:
  assumes "selectById db i = DbOk (Some s)"
  shows "selectById (updateLastChecked db i now) i
           = DbOk (Some (s\<lparr>domain_last_checked_at := Some now\<rparr>))"
proof -
  have nb: "\<not> broken db" using assms by (rule selectById_not_broken)
  have f: "find (\<lambda>s. site_id s = i) (rows db) = Some s" using assms by (rule selectById_found)
  show ?thesis
    using nb f by (simp add: selectById_def updateLastChecked_def find_update)
qed

lemma selectById_after_status:
  assumes "selectById db i = DbOk (Some s)"
  shows "selectById (updateStatus db i st) i = DbOk (Some (s\<lparr>domain_status := Some st\<rparr>))"
proof -
  have nb: "\<not> broken db" using assms by (rule selectById_not_broken)
  have f: "find (\<lambda>s. site_id s = i) (rows db) = Some s" using assms by (rule selectById_found)
  show ?thesis
    using nb f by (simp add: selectById_def updateStatus_def find_update)
qed

lemma selectById_after_run:
  assumes "selectById db i = DbOk (Some s)"
  shows "selectById (updateStatus (updateLastChecked db i now) i st) i
           = DbOk (Some (s\<lparr>domain_status := Some st, domain_last_checked_at := Some now\<rparr>))"
  using selectById_after_status[OF selectById_after_timestamp[OF assms, where now = now],
      where st = st]
  by simp

text \<open>The two UPDATE statements touch the validation columns only, so a validation run
  never changes what the gatekeeper answers.\<close>

lemma eraseValidation_updates:
  "map eraseValidation (rows (updateLastChecked db i now)) = map eraseValidation (rows db)"
  "map eraseValidation (rows (updateStatus db i st)) = map eraseValidation (rows db)"
  "broken (updateLastChecked db i now) = broken db"
  "broken (updateStatus db i st) = broken db"
  by (simp_all add: updateLastChecked_def updateStatus_def eraseValidation_def comp_def)

subsection \<open>The status of a run\<close>

text \<open>
  Claim C1, as the code has it. In every validation run (site loaded, domain not blank)
  whose DNS check is called and returns a result: if the result is not ok, the handler
  writes the status \<^verbatim>\<open>dns_error\<close> and does not call the HTTPS check; if it is ok and
  the HTTPS check returns an ok result, it writes \<^verbatim>\<open>active\<close>; if it is ok and the HTTPS
  check returns a result that is not ok, or throws, it writes \<^verbatim>\<open>dns_ok_ssl_error\<close> (not
  \<^verbatim>\<open>dns_ok_tls_error\<close>). Exactly one status is written in the run, and it is the status
  of the row afterwards. (An HTTPS check that returns no result object is the only
  other case; the catch-all branch then writes \<^verbatim>\<open>error_generic\<close>.)
\<close>

theorem C1_status_per_run:
  assumes "selectById db i = DbOk (Some s)"
      and "toLowerCase (trim (domain s)) \<noteq> []"
      and "imp_checkDnsCname imp = Some (CheckFn dnsCheck)"
      and "dnsCheck (toLowerCase (trim (domain s))) = Returned (Some dnsResult)"
  shows "(let dname = toLowerCase (trim (domain s));
              run = validateDomain imp redirectTo db i now;
              status =
                (if \<not> ok dnsResult then ''dns_error''
                 else case callCheck ''checkHttpsHealth'' (imp_checkHttpsHealth imp) dname of
                        Returned (Some h) \<Rightarrow> if ok h then ''active'' else ''dns_ok_ssl_error''
                      | Returned None \<Rightarrow> ''error_generic''
                      | Threw e \<Rightarrow> ''dns_ok_ssl_error'')
          in statusesWritten (snd run) = [status]
           \<and> fst run = updateStatus (updateLastChecked db i now) i status
           \<and> selectById (fst run) i
               = DbOk (Some (s\<lparr>domain_status := Some status,
                                domain_last_checked_at := Some now\<rparr>))
           \<and> (\<not> ok dnsResult \<longrightarrow> \<not> list_ex isHttpsCall (snd run))
           \<and> (ok dnsResult \<and> isFunction (imp_checkHttpsHealth imp)
                \<longrightarrow> CallHttpsCheck dname \<in> set (snd run)))"
proof -
  let ?d = "toLowerCase (trim (domain s))"
  obtain st ft fm calls where vt: "validationTry imp ?d = ((st, ft, fm), calls)"
    by (metis prod.exhaust)
  have st: "st = (if \<not> ok dnsResult then ''dns_error''
            else case callCheck ''checkHttpsHealth'' (imp_checkHttpsHealth imp) ?d of
                   Returned (Some h) \<Rightarrow> if ok h then ''active'' else ''dns_ok_ssl_error''
                 | Returned None \<Rightarrow> ''error_generic''
                 | Threw e \<Rightarrow> ''dns_ok_ssl_error'')"
    using validationTry_status(1)[OF assms(3,4)] vt by simp
  have calls: "calls = CallDnsCheck ?d # (if ok dnsResult \<and> isFunction (imp_checkHttpsHealth imp)
                             then [CallHttpsCheck ?d] else [])"
    using validationTry_status(2)[OF assms(3,4)] vt by simp
  have run: "validateDomain imp redirectTo db i now =
          (updateStatus (updateLastChecked db i now) i st,
           SetLastChecked i now # calls @ [SetStatus i st, SetFlash ft fm, Redirect redirectTo])"
    using validateDomain_run[OF assms(1,2)] vt by simp
  show ?thesis
    unfolding Let_def run st[symmetric]
    using selectById_after_run[OF assms(1), of now st] by (simp add: calls)
qed

text \<open>The first end-to-end scenario, with the handlers importing from the revision of
  the module that exports \<^verbatim>\<open>checkDnsCname\<close>: the CNAME matches, \<^verbatim>\<open>/health\<close> answers 200,
  the status written is \<^verbatim>\<open>active\<close>.\<close>

theorem C1_status_per_run_witness:
  "selectById exampleDb 2 = DbOk (Some \<lparr>site_id = 2, domain = ''example.com'',
        domain_status = Some ''pending'', domain_last_checked_at = None\<rparr>)
   \<and> toLowerCase (trim ''example.com'') = ''example.com''
   \<and> ok (checkDnsCname ''proxy.platform.test'' exampleDns ''example.com'')
   \<and> statusesWritten (snd (validateDomain (v1Imports healthyNet) ''/admin/sites'' exampleDb 2
                             exampleNow)) = [''active'']
   \<and> CallHttpsCheck ''example.com''
       \<in> set (snd (validateDomain (v1Imports healthyNet) ''/admin/sites'' exampleDb 2 exampleNow))"
proof -
  let ?s = "\<lparr>site_id = 2, domain = ''example.com'',
        domain_status = Some ''pending'', domain_last_checked_at = None\<rparr>"
  let ?f = "\<lambda>d. Returned (Some (checkDnsCname ''proxy.platform.test'' exampleDns d))"
  have h1: "selectById exampleDb 2 = DbOk (Some ?s)"
    by code_simp
  have n: "toLowerCase (trim ''example.com'') = ''example.com''"
    by code_simp
  have h2: "toLowerCase (trim (domain ?s)) \<noteq> []"
    using n by simp
  have h3: "imp_checkDnsCname (v1Imports healthyNet) = Some (CheckFn ?f)"
    by (simp add: v1Imports_def requireDomainValidation_def domainValidation_v1_def)
  have h4: "?f (toLowerCase (trim (domain ?s)))
              = Returned (Some (checkDnsCname ''proxy.platform.test'' exampleDns ''example.com''))"
    using n by simp
  have okd: "ok (checkDnsCname ''proxy.platform.test'' exampleDns ''example.com'')"
    by code_simp
  have hf: "isFunction (imp_checkHttpsHealth (v1Imports healthyNet))"
    by (simp add: v1Imports_def requireDomainValidation_def domainValidation_v1_def
          isFunction_def)
  have hr: "callCheck ''checkHttpsHealth'' (imp_checkHttpsHealth (v1Imports healthyNet))
              ''example.com''
              = Returned (Some \<lparr>ok = True, method_tag = None,
                                detail = ''HTTPS /health returned 200''\<rparr>)"
    by code_simp
  show ?thesis
    using C1_status_per_run[OF h1 h2 h3 h4, of "''/admin/sites''" exampleNow] h1 okd hf hr n
    by (simp add: Let_def)
qed

text \<open>The claim as stated fails twice. With a DNS check that passes and a \<^verbatim>\<open>/health\<close>
  that answers 503, the status written is \<^verbatim>\<open>dns_ok_ssl_error\<close>, which is not the
  \<^verbatim>\<open>dns_ok_tls_error\<close> of the claim. And with the handlers importing from
  services/domainValidation.js, which exports no \<^verbatim>\<open>checkDnsCname\<close>, the call of the
  DNS check throws and the one status written is \<^verbatim>\<open>error_generic\<close>, even where the
  CNAME matches and \<^verbatim>\<open>/health\<close> proves the platform.\<close>

theorem C1_status_names_counterexample:
  "snd (adminValidateDomain (v1Imports unavailableNet) exampleDb 2 exampleNow)
     = [SetLastChecked 2 exampleNow, CallDnsCheck ''example.com'', CallHttpsCheck ''example.com'',
        SetStatus 2 ''dns_ok_ssl_error'',
        SetFlash ''warning''
          ''Domain example.com DNS is OK but HTTPS check had issues: HTTPS /health returned status 503'',
        Redirect ''/admin/sites'']
   \<and> ''dns_ok_ssl_error'' \<noteq> ''dns_ok_tls_error''
   \<and> snd (adminValidateDomain (currentImports healthyNet) exampleDb 2 exampleNow)
     = [SetLastChecked 2 exampleNow, SetStatus 2 ''error_generic'',
        SetFlash ''error'' ''Validation failed for example.com: checkDnsCname is not a function'',
        Redirect ''/admin/sites'']"
  by code_simp

subsection \<open>The time of the last check\<close>

text \<open>
  Claim C7. Every validation run (site loaded, domain not blank) first issues the write
  of \<^verbatim>\<open>domain_last_checked_at\<close>, before either check is called, whatever the checks
  will answer and whether they can be called at all; the row then carries the time of
  this attempt. The status is written once, after the calls of the checks, and the row
  afterwards carries both the time and that status.
\<close>

theorem C7_timestamp_before_outcome:
  assumes "selectById db i = DbOk (Some s)"
      and "toLowerCase (trim (domain s)) \<noteq> []"
  shows "\<exists>calls status flashType flashMessage.
           snd (validateDomain imp redirectTo db i now)
             = SetLastChecked i now # calls
                 @ [SetStatus i status, SetFlash flashType flashMessage, Redirect redirectTo]
         \<and> list_all isCheckCall calls
         \<and> statusesWritten (snd (validateDomain imp redirectTo db i now)) = [status]
         \<and> selectById (updateLastChecked db i now) i
             = DbOk (Some (s\<lparr>domain_last_checked_at := Some now\<rparr>))
         \<and> fst (validateDomain imp redirectTo db i now)
             = updateStatus (updateLastChecked db i now) i status
         \<and> selectById (fst (validateDomain imp redirectTo db i now)) i
             = DbOk (Some (s\<lparr>domain_status := Some status,
                              domain_last_checked_at := Some now\<rparr>))"
proof -
  let ?d = "toLowerCase (trim (domain s))"
  obtain st ft fm calls where vt: "validationTry imp ?d = ((st, ft, fm), calls)"
    by (metis prod.exhaust)
  have run: "validateDomain imp redirectTo db i now =
          (updateStatus (updateLastChecked db i now) i st,
           SetLastChecked i now # calls @ [SetStatus i st, SetFlash ft fm, Redirect redirectTo])"
    using validateDomain_run[OF assms(1,2)] vt by simp
  have c: "list_all isCheckCall calls"
    using validationTry_calls[of imp ?d] vt by simp
  have w: "statusesWritten (SetLastChecked i now # calls
             @ [SetStatus i st, SetFlash ft fm, Redirect redirectTo]) = [st]"
    using statusesWritten_calls[OF c] by simp
  show ?thesis
    using run c w selectById_after_timestamp[OF assms(1), of now]
      selectById_after_run[OF assms(1), of now st]
    by auto
qed

text \<open>A run whose DNS check cannot even be called still starts with the write of the
  time.\<close>

theorem C7_timestamp_before_outcome_witness:
  "selectById exampleDb 2 = DbOk (Some \<lparr>site_id = 2, domain = ''example.com'',
        domain_status = Some ''pending'', domain_last_checked_at = None\<rparr>)
   \<and> toLowerCase (trim ''example.com'') = ''example.com''
   \<and> (\<exists>calls status flashType flashMessage.
         snd (validateDomain (currentImports healthyNet) ''/portal/site'' exampleDb 2 exampleNow)
           = SetLastChecked 2 exampleNow # calls
               @ [SetStatus 2 status, SetFlash flashType flashMessage, Redirect ''/portal/site'']
         \<and> list_all isCheckCall calls
         \<and> selectById
              (fst (validateDomain (currentImports healthyNet) ''/portal/site'' exampleDb 2
                      exampleNow)) 2
             = DbOk (Some \<lparr>site_id = 2, domain = ''example.com'',
                           domain_status = Some status,
                           domain_last_checked_at = Some exampleNow\<rparr>))"
proof -
  let ?s = "\<lparr>site_id = 2, domain = ''example.com'',
        domain_status = Some ''pending'', domain_last_checked_at = None\<rparr>"
  have h1: "selectById exampleDb 2 = DbOk (Some ?s)"
    by code_simp
  have n: "toLowerCase (trim ''example.com'') = ''example.com''"
    by code_simp
  have h2: "toLowerCase (trim (domain ?s)) \<noteq> []"
    using n by simp
  from C7_timestamp_before_outcome[OF h1 h2, of "currentImports healthyNet" "''/portal/site''"
        exampleNow]
  obtain calls status flashType flashMessage where
    e: "snd (validateDomain (currentImports healthyNet) ''/portal/site'' exampleDb 2 exampleNow)
           = SetLastChecked 2 exampleNow # calls
               @ [SetStatus 2 status, SetFlash flashType flashMessage, Redirect ''/portal/site'']"
    and c: "list_all isCheckCall calls"
    and r: "selectById
              (fst (validateDomain (currentImports healthyNet) ''/portal/site'' exampleDb 2
                      exampleNow)) 2
             = DbOk (Some (?s\<lparr>domain_status := Some status,
                               domain_last_checked_at := Some exampleNow\<rparr>))"
    by blast
  have r': "selectById
              (fst (validateDomain (currentImports healthyNet) ''/portal/site'' exampleDb 2
                      exampleNow)) 2
             = DbOk (Some \<lparr>site_id = 2, domain = ''example.com'',
                           domain_status = Some status,
                           domain_last_checked_at = Some exampleNow\<rparr>)"
    using r by simp
  show ?thesis
    using h1 n e c r' by blast
qed

subsection \<open>The reserved domain\<close>

text \<open>
  Claim C8, as the code has it. The gatekeeper rejects every candidate that normalises
  to \<^verbatim>\<open>localhost\<close> with status 403, whatever the token and the registry. The validation
  handlers have no case for the reserved domain: a run on a site whose domain is
  \<^verbatim>\<open>localhost\<close> is not refused; it writes the time of the check and one status like
  any other run and, whenever the DNS check that the handler imports is a function, it
  calls that check on \<^verbatim>\<open>localhost\<close>.
\<close>

theorem C8_reserved_domain:
  "(normalizeCandidate candidateDomain = ''localhost''
      \<longrightarrow> fst (caddyAsk envToken db (Some presentedToken) (Some candidateDomain)) = 403
        \<and> \<not> shouldIssueCertificate envToken db candidateDomain presentedToken)
   \<and> (selectById db' i = DbOk (Some s) \<and> toLowerCase (trim (domain s)) = ''localhost''
      \<longrightarrow> hd (snd (validateDomain imp redirectTo db' i now)) = SetLastChecked i now
        \<and> length (statusesWritten (snd (validateDomain imp redirectTo db' i now))) = 1
        \<and> (isFunction (imp_checkDnsCname imp)
            \<longrightarrow> CallDnsCheck ''localhost'' \<in> set (snd (validateDomain imp redirectTo db' i now))))"
proof (intro conjI impI)
  assume l: "normalizeCandidate candidateDomain = ''localhost''"
  have ne: "toLowerCase (trim candidateDomain) \<noteq> []"
  proof
    assume "toLowerCase (trim candidateDomain) = []"
    then have "normalizeCandidate candidateDomain = []"
      by (simp add: normalizeCandidate_def startsWith_def)
    then show False using l by simp
  qed
  show g: "fst (caddyAsk envToken db (Some presentedToken) (Some candidateDomain)) = 403"
  proof (cases "tokenMatches envToken presentedToken")
    case True
    show ?thesis unfolding caddyAsk_checked[OF True ne] using l by simp
  next
    case False
    then show ?thesis by (simp add: caddyAsk_unmatched)
  qed
  show "\<not> shouldIssueCertificate envToken db candidateDomain presentedToken"
    using g by (simp add: shouldIssueCertificate_def)
next
  assume a: "selectById db' i = DbOk (Some s) \<and> toLowerCase (trim (domain s)) = ''localhost''"
  then have f: "selectById db' i = DbOk (Some s)"
    and d: "toLowerCase (trim (domain s)) = ''localhost''" by simp_all
  have ne: "toLowerCase (trim (domain s)) \<noteq> []" using d by simp
  obtain st ft fm calls where vt: "validationTry imp ''localhost'' = ((st, ft, fm), calls)"
    by (metis prod.exhaust)
  have run: "validateDomain imp redirectTo db' i now =
          (updateStatus (updateLastChecked db' i now) i st,
           SetLastChecked i now # calls @ [SetStatus i st, SetFlash ft fm, Redirect redirectTo])"
    using validateDomain_run[OF f ne] vt d by simp
  show "hd (snd (validateDomain imp redirectTo db' i now)) = SetLastChecked i now"
    using run by simp
  have c: "list_all isCheckCall calls"
    using validationTry_calls[of imp "''localhost''"] vt by simp
  show "length (statusesWritten (snd (validateDomain imp redirectTo db' i now))) = 1"
    using run statusesWritten_calls[OF c] by simp
  assume "isFunction (imp_checkDnsCname imp)"
  then have "CallDnsCheck ''localhost'' \<in> set calls"
    using validationTry_dns_called[of imp "''localhost''"] vt by simp
  then show "CallDnsCheck ''localhost'' \<in> set (snd (validateDomain imp redirectTo db' i now))"
    using run by simp
qed

text \<open>\<^verbatim>\<open>www.LOCALHOST:443\<close> with the valid token is refused although the registry holds
  the site \<^verbatim>\<open>localhost\<close>; a validation of that site calls the DNS check on it.\<close>

theorem C8_reserved_domain_witness:
  "normalizeCandidate ''www.LOCALHOST:443'' = ''localhost''
   \<and> registered exampleDb ''localhost''
   \<and> fst (caddyAsk (Some ''s3cret'') exampleDb (Some ''s3cret'') (Some ''www.LOCALHOST:443'')) = 403
   \<and> \<not> shouldIssueCertificate (Some ''s3cret'') exampleDb ''www.LOCALHOST:443'' ''s3cret''
   \<and> selectById exampleDb 1 = DbOk (Some \<lparr>site_id = 1, domain = ''localhost'',
        domain_status = Some ''pending'', domain_last_checked_at = None\<rparr>)
   \<and> isFunction (imp_checkDnsCname (v1Imports healthyNet))
   \<and> hd (snd (validateDomain (v1Imports healthyNet) ''/admin/sites'' exampleDb 1 exampleNow))
       = SetLastChecked 1 exampleNow
   \<and> CallDnsCheck ''localhost''
       \<in> set (snd (validateDomain (v1Imports healthyNet) ''/admin/sites'' exampleDb 1 exampleNow))"
proof -
  let ?s = "\<lparr>site_id = 1, domain = ''localhost'',
        domain_status = Some ''pending'', domain_last_checked_at = None\<rparr>"
  have n: "normalizeCandidate ''www.LOCALHOST:443'' = ''localhost''"
    by code_simp
  have r: "registered exampleDb ''localhost''"
    by (simp add: registered_def exampleDb_def)
  have h1: "selectById exampleDb 1 = DbOk (Some ?s)"
    by code_simp
  have h2: "toLowerCase (trim (domain ?s)) = ''localhost''"
    by code_simp
  have h3: "isFunction (imp_checkDnsCname (v1Imports healthyNet))"
    by (simp add: v1Imports_def requireDomainValidation_def domainValidation_v1_def
          isFunction_def)
  show ?thesis
    using C8_reserved_domain[of "''www.LOCALHOST:443''" "Some ''s3cret''" exampleDb "''s3cret''"
        exampleDb 1 ?s "v1Imports healthyNet" "''/admin/sites''" exampleNow] n r h1 h2 h3
    by simp
qed

text \<open>The claim as stated denies that the handlers ever run a check against the reserved
  domain. A validation of the seeded site \<^verbatim>\<open>localhost\<close> calls the DNS check on
  \<^verbatim>\<open>localhost\<close> and writes \<^verbatim>\<open>dns_error\<close> into its row; with the handlers importing from
  services/domainValidation.js the run is not refused either, and writes the time and
  \<^verbatim>\<open>error_generic\<close> into that row.\<close>

theorem C8_localhost_validated_counterexample:
  "snd (adminValidateDomain (v1Imports healthyNet) exampleDb 1 exampleNow)
     = [SetLastChecked 1 exampleNow, CallDnsCheck ''localhost'', SetStatus 1 ''dns_error'',
        SetFlash ''error''
          ''DNS validation failed for localhost: DNS error (ENODATA): queryCname ENODATA (expected: proxy.platform.test)'',
        Redirect ''/admin/sites'']
   \<and> selectById (fst (adminValidateDomain (currentImports healthyNet) exampleDb 1 exampleNow)) 1
     = DbOk (Some \<lparr>site_id = 1, domain = ''localhost'', domain_status = Some ''error_generic'',
                   domain_last_checked_at = Some exampleNow\<rparr>)"
  by code_simp

end
